theory Spec2Isabelle
  imports Complex_Main "HOL-Library.Word"
begin

section \<open>Bezier curve fitting of Qwt: \<^verbatim>\<open>qwt_bezier_curve_fitter.cpp\<close>\<close>

text \<open>
  The theory embeds the functions of \<^verbatim>\<open>src/qwt/src/qwt_bezier_curve_fitter.cpp\<close>.

  \<^item> A C++ \<^verbatim>\<open>double\<close> is a \<^typ>\<open>real\<close>. The functions are given twice: in exact
    arithmetic, and with the rounding of every operation made explicit (the functions
    named \<open>_rnd\<close>, with the rounding function as a parameter and the rounding \<open>rnd53\<close> of
    \<^verbatim>\<open>double\<close> as an instance). A quotient whose divisor is zero has no value over the
    reals (the C++ yields an infinity or a NaN there), so every division by a computed
    divisor goes through \<open>fdiv\<close>, which returns the error \<open>DivByZero\<close> for a zero divisor.
  \<^item> A C++ \<^verbatim>\<open>int\<close> that is only stored and compared (the spline size) is a
    32-bit word read as two's complement (\<open>sint\<close>); the loop counters and array
    indices are \<^typ>\<open>int\<close>, and every array access goes through \<open>elemAt\<close>, which returns the error \<open>OutOfBounds\<close>
    outside the array.
  \<^item> \<^verbatim>\<open>QPointF\<close> is a record of the two coordinates (named \<open>xp\<close> and \<open>yp\<close>, as the
    members of the Qt class are), \<^verbatim>\<open>QPolygonF\<close> is a list of points, and
    \<^verbatim>\<open>QwtInterval\<close> is a record of the two borders.
\<close>

subsection \<open>Data\<close>

record QPointF =
  xp :: real
  yp :: real

type_synonym QPolygonF = "QPointF list"

record QwtInterval =
  minValue :: real
  maxValue :: real

datatype error = DivByZero | OutOfBounds

text \<open>Sequencing of fallible computations: the first error ends the computation.\<close>

definition bindE :: "error + 'a \<Rightarrow> ('a \<Rightarrow> error + 'b) \<Rightarrow> error + 'b" where
  "bindE m f = (case m of Inl e \<Rightarrow> Inl e | Inr v \<Rightarrow> f v)"

definition fdiv :: "real \<Rightarrow> real \<Rightarrow> error + real" where
  "fdiv a b = (if b = 0 then Inl DivByZero else Inr (a / b))"

text \<open>Reading \<open>p[k]\<close> of an array of \<open>length p\<close> elements.\<close>

definition elemAt :: "'a list \<Rightarrow> int \<Rightarrow> error + 'a" where
  "elemAt p k = (if 0 \<le> k \<and> k < int (length p) then Inr (p ! nat k) else Inl OutOfBounds)"

text \<open>Qt's \<^verbatim>\<open>qMax\<close> is \<^verbatim>\<open>(a < b) ? b : a\<close> and \<^verbatim>\<open>qMin\<close> is \<^verbatim>\<open>(a < b) ? a : b\<close>.\<close>

definition qMax :: "32 word \<Rightarrow> 32 word \<Rightarrow> 32 word" where
  "qMax a b = (if a <s b then b else a)"

definition qMin :: "int \<Rightarrow> int \<Rightarrow> int" where
  "qMin a b = (if a < b then a else b)"

text \<open>
  Qt compares two points up to a tolerance: \<^verbatim>\<open>qFuzzyIsNull(d)\<close> is
  \<^verbatim>\<open>qAbs(d) <= 0.000000000001\<close>, and \<^verbatim>\<open>p1 != p2\<close> on \<^verbatim>\<open>QPointF\<close> is
  \<^verbatim>\<open>!qFuzzyIsNull(p1.xp - p2.xp) || !qFuzzyIsNull(p1.yp - p2.yp)\<close>.
\<close>

definition qFuzzyIsNull :: "real \<Rightarrow> bool" where
  "qFuzzyIsNull d = (\<bar>d\<bar> \<le> 1 / 10 ^ 12)"

definition pointNe :: "QPointF \<Rightarrow> QPointF \<Rightarrow> bool" where
  "pointNe p1 p2 = (\<not> qFuzzyIsNull (xp p1 - xp p2) \<or> \<not> qFuzzyIsNull (yp p1 - yp p2))"

subsection \<open>The spline size of the two fitters\<close>

text \<open>
  \<^verbatim>\<open>QwtBezierSplineCurveFitter::PrivateData\<close> holds a spline object and the spline
  size; the type \<open>'s\<close> is the state of the spline object (class \<^verbatim>\<open>QwtBezierSpline\<close>).
  \<^verbatim>\<open>QwtBezierSplineCurveFitter2::PrivateData\<close> holds the spline size only.
\<close>

record 's PrivateData =
  spline :: 's
  splineSize :: "32 word"

record PrivateData2 =
  splineSize2 :: "32 word"

definition setSplineSize :: "32 word \<Rightarrow> 's PrivateData \<Rightarrow> 's PrivateData" where
  "setSplineSize n d = d\<lparr>splineSize := qMax n 10\<rparr>"

definition setSplineSize2 :: "32 word \<Rightarrow> PrivateData2 \<Rightarrow> PrivateData2" where
  "setSplineSize2 n d = d\<lparr>splineSize2 := qMax n 10\<rparr>"

subsection \<open>Line length, Bezier interval, Bezier value\<close>

definition qwtLineLength :: "QPointF \<Rightarrow> QPointF \<Rightarrow> real" where
  "qwtLineLength p_start p_end =
     (let dx = xp p_start - xp p_end;
          dy = yp p_start - yp p_end
      in sqrt (dx * dx + dy * dy))"

text \<open>
  The scale factors \<open>s1\<close> and \<open>s2\<close> that \<^verbatim>\<open>qwtBezierInterval\<close> selects, in the order of
  its four branches. \<^verbatim>\<open>p0 != p1\<close> on points is Qt's comparison \<open>pointNe\<close>.
\<close>

definition qwtBezierScales ::
  "QPointF \<Rightarrow> QPointF \<Rightarrow> QPointF \<Rightarrow> QPointF \<Rightarrow> error + (real \<times> real)" where
  "qwtBezierScales p0 p1 p2 p3 =
     (let d02 = qwtLineLength p0 p2;
          d13 = qwtLineLength p1 p3;
          d12_2 = 0.5 * qwtLineLength p1 p2;
          b1 = (d02 / 6 < d12_2);
          b2 = (d13 / 6 < d12_2)
      in if b1 \<and> b2 then
           Inr (if pointNe p0 p1 then 1 / 6 else 1 / 3, if pointNe p2 p3 then 1 / 6 else 1 / 3)
         else if \<not> b1 \<and> b2 then
           bindE (fdiv d12_2 d02) (\<lambda>s1. Inr (s1, s1))
         else if b1 \<and> \<not> b2 then
           bindE (fdiv d12_2 d13) (\<lambda>s1. Inr (s1, s1))
         else
           bindE (fdiv d12_2 d02) (\<lambda>s1.
           bindE (fdiv d12_2 d13) (\<lambda>s2. Inr (s1, s2))))"

definition qwtBezierInterval ::
  "QPointF \<Rightarrow> QPointF \<Rightarrow> QPointF \<Rightarrow> QPointF \<Rightarrow> error + QwtInterval" where
  "qwtBezierInterval p0 p1 p2 p3 =
     bindE (qwtBezierScales p0 p1 p2 p3) (\<lambda>(s1, s2).
       let y1 = yp p1 + (yp p2 - yp p0) * s1;
           y2 = yp p2 + (yp p1 - yp p3) * s2
       in Inr \<lparr>minValue = 3 * y1, maxValue = 3 * y2\<rparr>)"

definition qwtBezierValue ::
  "QPointF \<Rightarrow> QPointF \<Rightarrow> QwtInterval \<Rightarrow> real \<Rightarrow> error + real" where
  "qwtBezierValue p1 p2 interval v =
     bindE (fdiv (v - xp p1) (xp p2 - xp p1)) (\<lambda>s1.
       let s2 = 1 - s1;
           a1 = s1 * minValue interval;
           a2 = s1 * s1 * maxValue interval;
           a3 = s1 * s1 * s1 * yp p2
       in Inr (((s2 * yp p1 + a1) * s2 + a2) * s2 + a3))"

subsection \<open>The stateless fit\<close>

text \<open>The inner loop \<^verbatim>\<open>while ( x > p[j + 1].x() ) j++\<close>.\<close>

function advance :: "QPolygonF \<Rightarrow> real \<Rightarrow> int \<Rightarrow> error + int" where
  "advance p v j =
     (case elemAt p (j + 1) of
        Inl e \<Rightarrow> Inl e
      | Inr q \<Rightarrow> if v > xp q then advance p v (j + 1) else Inr j)"
  by pat_completeness auto
termination
  by (relation "measure (\<lambda>(p, v, j). nat (int (length p) - j))")
     (auto simp: elemAt_def split: if_splits)

text \<open>
  One round of the \<^verbatim>\<open>for\<close> loop at the abscissa \<open>v\<close>: the cursor \<open>j\<close> and the cached
  interval go in, the new cursor, the new interval and the fitted point come out.
\<close>

definition fitStep ::
  "QPolygonF \<Rightarrow> real \<Rightarrow> int \<Rightarrow> QwtInterval \<Rightarrow> error + (int \<times> QwtInterval \<times> QPointF)" where
  "fitStep p v j intv =
     bindE (elemAt p (j + 1)) (\<lambda>q.
     bindE (if v > xp q then
              bindE (advance p v j) (\<lambda>j'.
                let j2 = qMin (int (length p) - 1) (j' + 2)
                in bindE (elemAt p (j' - 1)) (\<lambda>q0.
                   bindE (elemAt p j') (\<lambda>q1.
                   bindE (elemAt p (j' + 1)) (\<lambda>q2.
                   bindE (elemAt p j2) (\<lambda>q3.
                   bindE (qwtBezierInterval q0 q1 q2 q3) (\<lambda>intv'. Inr (j', intv')))))))
            else Inr (j, intv)) (\<lambda>(j', intv').
     bindE (elemAt p j') (\<lambda>r1.
     bindE (elemAt p (j' + 1)) (\<lambda>r2.
     bindE (qwtBezierValue r1 r2 intv' v) (\<lambda>w.
       Inr (j', intv', \<lparr>xp = v, yp = w\<rparr>))))))"

function fitLoop ::
  "QPolygonF \<Rightarrow> int \<Rightarrow> real \<Rightarrow> real \<Rightarrow> int \<Rightarrow> int \<Rightarrow> QwtInterval \<Rightarrow> QPolygonF
     \<Rightarrow> error + QPolygonF" where
  "fitLoop p numPoints x1 delta i j intv fittedPoints =
     (if i < numPoints then
        (case fitStep p (x1 + of_int i * delta) j intv of
           Inl e \<Rightarrow> Inl e
         | Inr (j', intv', pt) \<Rightarrow>
             fitLoop p numPoints x1 delta (i + 1) j' intv' (fittedPoints @ [pt]))
      else Inr fittedPoints)"
  by pat_completeness auto
termination
  by (relation "measure (\<lambda>(p, numPoints, x1, delta, i, j, intv, fittedPoints). nat (numPoints - i))")
     auto

definition qwtFitBezier :: "QPolygonF \<Rightarrow> int \<Rightarrow> error + QPolygonF" where
  "qwtFitBezier points numPoints =
     (let psize = int (length points)
      in if psize \<le> 2 then Inr points
         else
           bindE (elemAt points 0) (\<lambda>pfirst.
           bindE (elemAt points (psize - 1)) (\<lambda>plast.
           let x1 = xp pfirst;
               x2 = xp plast
           in bindE (fdiv (x2 - x1) (of_int (numPoints - 1))) (\<lambda>delta.
              bindE (elemAt points 1) (\<lambda>q1.
              bindE (elemAt points 2) (\<lambda>q2.
              bindE (qwtBezierInterval pfirst pfirst q1 q2) (\<lambda>intv.
                fitLoop points numPoints x1 delta 0 0 intv [])))))))"

subsection \<open>The fitter on the stateless fit\<close>

definition fitCurve2 :: "PrivateData2 \<Rightarrow> QPolygonF \<Rightarrow> error + QPolygonF" where
  "fitCurve2 d points =
     (let size = int (length points)
      in if size \<le> 2 then Inr points
         else qwtFitBezier points (sint (splineSize2 d)))"

subsection \<open>The fitter that owns a spline object\<close>

text \<open>
  Class \<^verbatim>\<open>QwtBezierSpline\<close> (header \<^verbatim>\<open>qwt_bezier_spline.h\<close>) is not part of the source
  file. The four member functions that \<^verbatim>\<open>fitSpline\<close> calls are parameters of the model:
  a record of operations on the spline state \<open>'s\<close>.
\<close>

record 's QwtBezierSpline =
  sp_setPoints :: "QPolygonF \<Rightarrow> 's \<Rightarrow> 's"
  sp_isValid :: "'s \<Rightarrow> bool"
  sp_value :: "'s \<Rightarrow> real \<Rightarrow> real"
  sp_reset :: "'s \<Rightarrow> 's"

text \<open>
  The member functions are \<^verbatim>\<open>const\<close> and change the spline object behind \<^verbatim>\<open>d_data\<close>:
  the model returns the result together with the private data after the call.
\<close>

definition fitSpline ::
  "'s QwtBezierSpline \<Rightarrow> 's PrivateData \<Rightarrow> QPolygonF \<Rightarrow> (error + QPolygonF) \<times> 's PrivateData" where
  "fitSpline ops d points =
     (let s = sp_setPoints ops points (spline d)
      in if \<not> sp_isValid ops s then (Inr points, d\<lparr>spline := s\<rparr>)
         else
           let n = sint (splineSize d);
               fittedPoints =
                 bindE (elemAt points 0) (\<lambda>pfirst.
                 bindE (elemAt points (int (length points) - 1)) (\<lambda>plast.
                 let x1 = xp pfirst;
                     x2 = xp plast;
                     dx = x2 - x1
                 in bindE (fdiv dx (of_int (n - 1))) (\<lambda>delta.
                      Inr (map (\<lambda>i. let v = x1 + of_int i * delta
                                     in \<lparr>xp = v, yp = sp_value ops s v\<rparr>) [0..n - 1]))))
           in (fittedPoints, d\<lparr>spline := sp_reset ops s\<rparr>))"

definition fitCurve ::
  "'s QwtBezierSpline \<Rightarrow> 's PrivateData \<Rightarrow> QPolygonF \<Rightarrow> (error + QPolygonF) \<times> 's PrivateData" where
  "fitCurve ops d points =
     (let size = int (length points)
      in if size \<le> 2 then (Inr points, d)
         else fitSpline ops d points)"

text \<open>
  Modelled from the spec: the spline state object (class \<^verbatim>\<open>QwtBezierSpline\<close>, which is
  not in the source file), by its contract \<^verbatim>\<open>setPoints\<close>, \<^verbatim>\<open>isValid\<close>, \<^verbatim>\<open>value\<close>,
  \<^verbatim>\<open>reset\<close>. This instance records the calls which change the object, in their
  order; it is valid after \<^verbatim>\<open>setPoints\<close> when the predicate \<open>ok\<close> holds of the points
  loaded last.
\<close>

datatype splineCall = SetPoints QPolygonF | Reset

definition loadedPoints :: "splineCall list \<Rightarrow> QPolygonF" where
  "loadedPoints s = (case rev s of SetPoints pts # _ \<Rightarrow> pts | _ \<Rightarrow> [])"

definition recordingSpline :: "(QPolygonF \<Rightarrow> bool) \<Rightarrow> (splineCall list) QwtBezierSpline" where
  "recordingSpline ok =
     \<lparr>sp_setPoints = (\<lambda>pts s. s @ [SetPoints pts]),
      sp_isValid = (\<lambda>s. ok (loadedPoints s)),
      sp_value = (\<lambda>s v. 0),
      sp_reset = (\<lambda>s. s @ [Reset])\<rparr>"

subsection \<open>The fit that computes every interval afresh\<close>






subsection \<open>The stateless fit in rounded arithmetic\<close>

text \<open>
  The same functions with the rounding of the \<^verbatim>\<open>double\<close> operations made explicit: every
  arithmetic operation of the source (\<open>+\<close>, \<open>-\<close>, \<open>*\<close>, \<open>/\<close>, \<^verbatim>\<open>qSqrt\<close>) and every
  constant quotient (\<^verbatim>\<open>1.0 / 6.0\<close>, \<^verbatim>\<open>1.0 / 3.0\<close>) computes the exact result and then
  applies the rounding function \<open>rnd\<close>, a parameter. Comparisons and the conversion of an
  \<^verbatim>\<open>int\<close> to \<^verbatim>\<open>double\<close> are exact. With \<open>rnd = (\<lambda>r. r)\<close> these are the functions of the
  exact arithmetic above. The inner loop \<open>advance\<close> has no arithmetic and is shared.
\<close>

definition fdiv_rnd :: "(real \<Rightarrow> real) \<Rightarrow> real \<Rightarrow> real \<Rightarrow> error + real" where
  "fdiv_rnd rnd a b = (if b = 0 then Inl DivByZero else Inr (rnd (a / b)))"

definition pointNe_rnd :: "(real \<Rightarrow> real) \<Rightarrow> QPointF \<Rightarrow> QPointF \<Rightarrow> bool" where
  "pointNe_rnd rnd p1 p2 =
     (\<not> qFuzzyIsNull (rnd (xp p1 - xp p2)) \<or> \<not> qFuzzyIsNull (rnd (yp p1 - yp p2)))"

definition qwtLineLength_rnd :: "(real \<Rightarrow> real) \<Rightarrow> QPointF \<Rightarrow> QPointF \<Rightarrow> real" where
  "qwtLineLength_rnd rnd p_start p_end =
     (let dx = rnd (xp p_start - xp p_end);
          dy = rnd (yp p_start - yp p_end)
      in rnd (sqrt (rnd (rnd (dx * dx) + rnd (dy * dy)))))"

definition qwtBezierScales_rnd ::
  "(real \<Rightarrow> real) \<Rightarrow> QPointF \<Rightarrow> QPointF \<Rightarrow> QPointF \<Rightarrow> QPointF \<Rightarrow> error + (real \<times> real)" where
  "qwtBezierScales_rnd rnd p0 p1 p2 p3 =
     (let d02 = qwtLineLength_rnd rnd p0 p2;
          d13 = qwtLineLength_rnd rnd p1 p3;
          d12_2 = rnd (0.5 * qwtLineLength_rnd rnd p1 p2);
          b1 = (rnd (d02 / 6) < d12_2);
          b2 = (rnd (d13 / 6) < d12_2)
      in if b1 \<and> b2 then
           Inr (if pointNe_rnd rnd p0 p1 then rnd (1 / 6) else rnd (1 / 3),
                if pointNe_rnd rnd p2 p3 then rnd (1 / 6) else rnd (1 / 3))
         else if \<not> b1 \<and> b2 then
           bindE (fdiv_rnd rnd d12_2 d02) (\<lambda>s1. Inr (s1, s1))
         else if b1 \<and> \<not> b2 then
           bindE (fdiv_rnd rnd d12_2 d13) (\<lambda>s1. Inr (s1, s1))
         else
           bindE (fdiv_rnd rnd d12_2 d02) (\<lambda>s1.
           bindE (fdiv_rnd rnd d12_2 d13) (\<lambda>s2. Inr (s1, s2))))"

definition qwtBezierInterval_rnd ::
  "(real \<Rightarrow> real) \<Rightarrow> QPointF \<Rightarrow> QPointF \<Rightarrow> QPointF \<Rightarrow> QPointF \<Rightarrow> error + QwtInterval" where
  "qwtBezierInterval_rnd rnd p0 p1 p2 p3 =
     bindE (qwtBezierScales_rnd rnd p0 p1 p2 p3) (\<lambda>(s1, s2).
       let y1 = rnd (yp p1 + rnd (rnd (yp p2 - yp p0) * s1));
           y2 = rnd (yp p2 + rnd (rnd (yp p1 - yp p3) * s2))
       in Inr \<lparr>minValue = rnd (3 * y1), maxValue = rnd (3 * y2)\<rparr>)"

definition qwtBezierValue_rnd ::
  "(real \<Rightarrow> real) \<Rightarrow> QPointF \<Rightarrow> QPointF \<Rightarrow> QwtInterval \<Rightarrow> real \<Rightarrow> error + real" where
  "qwtBezierValue_rnd rnd p1 p2 interval v =
     bindE (fdiv_rnd rnd (rnd (v - xp p1)) (rnd (xp p2 - xp p1))) (\<lambda>s1.
       let s2 = rnd (1 - s1);
           a1 = rnd (s1 * minValue interval);
           a2 = rnd (rnd (s1 * s1) * maxValue interval);
           a3 = rnd (rnd (rnd (s1 * s1) * s1) * yp p2)
       in Inr (rnd (rnd (rnd (rnd (rnd (rnd (s2 * yp p1) + a1) * s2) + a2) * s2) + a3)))"

definition fitStep_rnd ::
  "(real \<Rightarrow> real) \<Rightarrow> QPolygonF \<Rightarrow> real \<Rightarrow> int \<Rightarrow> QwtInterval
     \<Rightarrow> error + (int \<times> QwtInterval \<times> QPointF)" where
  "fitStep_rnd rnd p v j intv =
     bindE (elemAt p (j + 1)) (\<lambda>q.
     bindE (if v > xp q then
              bindE (advance p v j) (\<lambda>j'.
                let j2 = qMin (int (length p) - 1) (j' + 2)
                in bindE (elemAt p (j' - 1)) (\<lambda>q0.
                   bindE (elemAt p j') (\<lambda>q1.
                   bindE (elemAt p (j' + 1)) (\<lambda>q2.
                   bindE (elemAt p j2) (\<lambda>q3.
                   bindE (qwtBezierInterval_rnd rnd q0 q1 q2 q3) (\<lambda>intv'.
                     Inr (j', intv')))))))
            else Inr (j, intv)) (\<lambda>(j', intv').
     bindE (elemAt p j') (\<lambda>r1.
     bindE (elemAt p (j' + 1)) (\<lambda>r2.
     bindE (qwtBezierValue_rnd rnd r1 r2 intv' v) (\<lambda>w.
       Inr (j', intv', \<lparr>xp = v, yp = w\<rparr>))))))"

function fitLoop_rnd ::
  "(real \<Rightarrow> real) \<Rightarrow> QPolygonF \<Rightarrow> int \<Rightarrow> real \<Rightarrow> real \<Rightarrow> int \<Rightarrow> int \<Rightarrow> QwtInterval \<Rightarrow> QPolygonF
     \<Rightarrow> error + QPolygonF" where
  "fitLoop_rnd rnd p numPoints x1 delta i j intv fittedPoints =
     (if i < numPoints then
        (case fitStep_rnd rnd p (rnd (x1 + rnd (of_int i * delta))) j intv of
           Inl e \<Rightarrow> Inl e
         | Inr (j', intv', pt) \<Rightarrow>
             fitLoop_rnd rnd p numPoints x1 delta (i + 1) j' intv' (fittedPoints @ [pt]))
      else Inr fittedPoints)"
  by pat_completeness auto
termination
  by (relation "measure (\<lambda>(rnd, p, numPoints, x1, delta, i, j, intv, fittedPoints).
                           nat (numPoints - i))")
     auto

definition qwtFitBezier_rnd :: "(real \<Rightarrow> real) \<Rightarrow> QPolygonF \<Rightarrow> int \<Rightarrow> error + QPolygonF" where
  "qwtFitBezier_rnd rnd points numPoints =
     (let psize = int (length points)
      in if psize \<le> 2 then Inr points
         else
           bindE (elemAt points 0) (\<lambda>pfirst.
           bindE (elemAt points (psize - 1)) (\<lambda>plast.
           let x1 = xp pfirst;
               x2 = xp plast
           in bindE (fdiv_rnd rnd (rnd (x2 - x1)) (of_int (numPoints - 1))) (\<lambda>delta.
              bindE (elemAt points 1) (\<lambda>q1.
              bindE (elemAt points 2) (\<lambda>q2.
              bindE (qwtBezierInterval_rnd rnd pfirst pfirst q1 q2) (\<lambda>intv.
                fitLoop_rnd rnd points numPoints x1 delta 0 0 intv [])))))))"

text \<open>
  The rounding of IEEE 754 binary64 (\<^verbatim>\<open>double\<close>): to the nearest number with a significand
  of 53 bits, ties to the even significand. The exponent is not bounded: overflow to an
  infinity and the gradual underflow of very small results are not modelled, and the
  quotient by zero is the error \<open>DivByZero\<close> where the hardware yields an infinity or a
  NaN.
\<close>

definition two_pow :: "int \<Rightarrow> real" where
  "two_pow e = (if 0 \<le> e then 2 ^ nat e else 1 / 2 ^ nat (- e))"

definition rne :: "real \<Rightarrow> int" where
  "rne r =
     (let f = \<lfloor>r\<rfloor>;
          d = r - of_int f
      in if d < 1 / 2 then f
         else if 1 / 2 < d then f + 1
         else if even f then f else f + 1)"

definition rnd53 :: "real \<Rightarrow> real" where
  "rnd53 r =
     (if r = 0 then 0
      else let e = \<lfloor>log 2 \<bar>r\<bar>\<rfloor>
           in of_int (rne (r / two_pow (e - 52))) * two_pow (e - 52))"

text \<open>The equations of the loops are unfolded by hand.\<close>

declare advance.simps [simp del]
declare fitLoop.simps [simp del]
declare fitLoop_rnd.simps [simp del]

section \<open>Properties\<close>

subsection \<open>The spline size\<close>

lemma qMax_sint: "sint (qMax a b) = max (sint a) (sint b)"
  by (simp add: qMax_def word_sless_alt max_def)

text \<open>
  Claim C6. For every 32-bit integer \<open>n\<close>, after \<open>setSplineSize n\<close> the spline size of
  either fitter is the maximum of \<open>n\<close> and 10; a request of at most 9 gives exactly 10;
  setting the same size twice is the same as setting it once, and setting 250 twice
  leaves the spline size 250.
\<close>

theorem setSplineSize_clamp:
  "sint (splineSize (setSplineSize n d)) = max (sint n) 10
   \<and> sint (splineSize2 (setSplineSize2 n d2)) = max (sint n) 10
   \<and> (sint n \<le> 9 \<longrightarrow> splineSize (setSplineSize n d) = 10 \<and> splineSize2 (setSplineSize2 n d2) = 10)
   \<and> setSplineSize n (setSplineSize n d) = setSplineSize n d
   \<and> setSplineSize2 n (setSplineSize2 n d2) = setSplineSize2 n d2
   \<and> splineSize (setSplineSize 250 (setSplineSize 250 d)) = 250
   \<and> splineSize2 (setSplineSize2 250 (setSplineSize2 250 d2)) = 250"
proof -
  have a: "sint (qMax n 10) = max (sint n) 10" by (simp add: qMax_sint)
  have b: "sint n \<le> 9 \<Longrightarrow> qMax n 10 = 10"
    by (simp add: qMax_def word_sless_alt)
  have c: "qMax 250 (10 :: 32 word) = 250"
    by (simp add: qMax_def word_sless_alt)
  show ?thesis
    using a b c by (simp add: setSplineSize_def setSplineSize2_def)
qed

theorem setSplineSize_clamp_witness:
  "sint (5 :: 32 word) \<le> 9
   \<and> splineSize (setSplineSize 5 \<lparr>spline = (), splineSize = 250\<rparr>) = 10
   \<and> splineSize2 (setSplineSize2 5 \<lparr>splineSize2 = 250\<rparr>) = 10"
proof -
  have h: "sint (5 :: 32 word) \<le> 9" by simp
  show ?thesis
    using h setSplineSize_clamp [of 5 "\<lparr>spline = (), splineSize = 250\<rparr>" "\<lparr>splineSize2 = 250\<rparr>"]
    by blast
qed

subsection \<open>The cubic evaluator\<close>

text \<open>
  Claim C7. For segment end points \<open>p1\<close>, \<open>p2\<close> of different abscissa, every interval
  and every \<open>v\<close>, \<open>qwtBezierValue\<close> returns
  \<open>((s2 * p1.y + s1 * min) * s2 + s1\<^sup>2 * max) * s2 + s1\<^sup>3 * p2.y\<close>, where
  \<open>s1 = (v - p1.x) / (p2.x - p1.x)\<close> and \<open>s2 = 1 - s1\<close>.
\<close>

theorem qwtBezierValue_horner:
  assumes "xp p1 \<noteq> xp p2"
  shows "qwtBezierValue p1 p2 interval v =
     (let s1 = (v - xp p1) / (xp p2 - xp p1); s2 = 1 - s1
      in Inr (((s2 * yp p1 + s1 * minValue interval) * s2 + s1\<^sup>2 * maxValue interval) * s2
              + s1 ^ 3 * yp p2))"
  using assms
  by (simp add: qwtBezierValue_def fdiv_def bindE_def Let_def power2_eq_square power3_eq_cube)

theorem qwtBezierValue_horner_witness:
  "xp \<lparr>xp = 1, yp = 1\<rparr> \<noteq> xp \<lparr>xp = 2, yp = 2\<rparr>
   \<and> qwtBezierValue \<lparr>xp = 1, yp = 1\<rparr> \<lparr>xp = 2, yp = 2\<rparr> \<lparr>minValue = 4, maxValue = 5\<rparr> (3 / 2)
       = Inr (3 / 2)"
proof -
  have h: "xp \<lparr>xp = 1, yp = 1\<rparr> \<noteq> xp \<lparr>xp = 2, yp = 2\<rparr>" by simp
  show ?thesis
    using h qwtBezierValue_horner [OF h, of "\<lparr>minValue = 4, maxValue = 5\<rparr>" "3 / 2"]
    by (simp add: Let_def power2_eq_square power3_eq_cube)
qed

subsection \<open>Inputs of at most two points\<close>

text \<open>
  Claim C3. For an input of at most two points, \<open>fitCurve\<close> of either fitter and
  \<open>qwtFitBezier\<close> return the input unchanged, whatever the spline size or the number of
  points asked for (and the fitter that owns a spline leaves its private data as it is).
\<close>

theorem fit_small_identity:
  assumes "length points \<le> 2"
  shows "fitCurve ops d points = (Inr points, d)
     \<and> fitCurve2 d2 points = Inr points
     \<and> qwtFitBezier points numPoints = Inr points"
  using assms by (simp add: fitCurve_def fitCurve2_def qwtFitBezier_def)

theorem fit_small_identity_witness:
  "length [\<lparr>xp = 0, yp = 0\<rparr>, \<lparr>xp = 1, yp = 5\<rparr>] \<le> 2
   \<and> fitCurve (recordingSpline (\<lambda>pts. True)) \<lparr>spline = [], splineSize = 250\<rparr>
        [\<lparr>xp = 0, yp = 0\<rparr>, \<lparr>xp = 1, yp = 5\<rparr>]
      = (Inr [\<lparr>xp = 0, yp = 0\<rparr>, \<lparr>xp = 1, yp = 5\<rparr>], \<lparr>spline = [], splineSize = 250\<rparr>)
   \<and> fitCurve2 \<lparr>splineSize2 = 250\<rparr> [\<lparr>xp = 0, yp = 0\<rparr>, \<lparr>xp = 1, yp = 5\<rparr>]
      = Inr [\<lparr>xp = 0, yp = 0\<rparr>, \<lparr>xp = 1, yp = 5\<rparr>]
   \<and> qwtFitBezier [\<lparr>xp = 0, yp = 0\<rparr>, \<lparr>xp = 1, yp = 5\<rparr>] 7
      = Inr [\<lparr>xp = 0, yp = 0\<rparr>, \<lparr>xp = 1, yp = 5\<rparr>]"
proof -
  have h: "length [\<lparr>xp = 0, yp = 0\<rparr>, \<lparr>xp = 1, yp = (5::real)\<rparr>] \<le> 2" by simp
  show ?thesis
    using h fit_small_identity [OF h, of "recordingSpline (\<lambda>pts. True)"
        "\<lparr>spline = [], splineSize = 250\<rparr>" "\<lparr>splineSize2 = 250\<rparr>" 7]
    by simp
qed

subsection \<open>The spline object after a fit\<close>

text \<open>
  Claim C8 says that \<open>fitCurve\<close> of the fitter that owns a spline resets the spline on
  every path once the points are loaded. On the path where the spline reports that it
  is not valid, \<open>fitSpline\<close> returns before its call of \<open>reset\<close>: for three points and a
  spline that is not valid after loading them, the input comes back and the spline has
  seen \<open>setPoints\<close> and no \<open>reset\<close>.
\<close>

theorem fitCurve_invalid_leaves_spline_loaded:
  "fitCurve (recordingSpline (\<lambda>pts. False)) \<lparr>spline = [], splineSize = 250\<rparr>
     [\<lparr>xp = 0, yp = 0\<rparr>, \<lparr>xp = 1, yp = 1\<rparr>, \<lparr>xp = 2, yp = 2\<rparr>]
   = (Inr [\<lparr>xp = 0, yp = 0\<rparr>, \<lparr>xp = 1, yp = 1\<rparr>, \<lparr>xp = 2, yp = 2\<rparr>],
      \<lparr>spline = [SetPoints [\<lparr>xp = 0, yp = 0\<rparr>, \<lparr>xp = 1, yp = 1\<rparr>, \<lparr>xp = 2, yp = 2\<rparr>]],
       splineSize = 250\<rparr>)"
  by (simp add: fitCurve_def fitSpline_def recordingSpline_def Let_def)

subsection \<open>The scale factors of the Bezier interval\<close>

lemma qwtLineLength_nonneg: "0 \<le> qwtLineLength a b"
  by (simp add: qwtLineLength_def Let_def)

lemma qwtLineLength_eq_0_iff: "qwtLineLength a b = 0 \<longleftrightarrow> a = b"
  by (cases a, cases b) (auto simp: qwtLineLength_def Let_def)

lemma qwtLineLength_pos: "a \<noteq> b \<Longrightarrow> 0 < qwtLineLength a b"
  using qwtLineLength_nonneg [of a b] qwtLineLength_eq_0_iff [of a b] by linarith

lemma qwtLineLength_horizontal:
  "qwtLineLength \<lparr>xp = a, yp = c\<rparr> \<lparr>xp = b, yp = c\<rparr> = \<bar>a - b\<bar>"
  by (simp add: qwtLineLength_def Let_def)

text \<open>
  Facts about the rounding \<open>rnd53\<close>: it fixes zero, it is odd, it keeps the sign, it is
  monotone, and inside the binade \<open>[2^e, 2^(e + 1))\<close> it is the rounding to a multiple of
  \<open>2^(e - 52)\<close>.
\<close>

lemma two_pow_powr: "two_pow e = 2 powr (of_int e)"
  by (simp add: two_pow_def powr_int)

lemma two_pow_pos: "0 < two_pow e"
  by (simp add: two_pow_def)

lemma rnd53_0: "rnd53 0 = 0"
  by (simp add: rnd53_def)

lemma rne_of_int: "rne (of_int n) = n"
  by (simp add: rne_def)

lemma rne_range: "\<lfloor>r\<rfloor> \<le> rne r \<and> rne r \<le> \<lfloor>r\<rfloor> + 1"
  by (simp add: rne_def Let_def)

lemma rne_mono:
  assumes "r \<le> s"
  shows "rne r \<le> rne s"
proof (cases "\<lfloor>r\<rfloor> = \<lfloor>s\<rfloor>")
  case True
  have "r - of_int \<lfloor>s\<rfloor> \<le> s - of_int \<lfloor>s\<rfloor>" using assms by simp
  then show ?thesis using True by (auto simp: rne_def Let_def)
next
  case False
  then have "\<lfloor>r\<rfloor> + 1 \<le> \<lfloor>s\<rfloor>" using floor_mono [OF assms] by linarith
  then show ?thesis using rne_range [of r] rne_range [of s] by linarith
qed

lemma rne_minus: "rne (- r) = - rne r"
proof (cases "r \<in> \<int>")
  case True
  then obtain n where "r = of_int n" by (auto elim: Ints_cases)
  then show ?thesis using rne_of_int [of n] rne_of_int [of "- n"] by simp
next
  case False
  then have ne: "r \<noteq> of_int \<lfloor>r\<rfloor>" by (metis Ints_of_int)
  then have fl: "\<lfloor>- r\<rfloor> = - \<lfloor>r\<rfloor> - 1"
    by (simp add: floor_minus ceiling_altdef)
  have d: "- r - of_int \<lfloor>- r\<rfloor> = 1 - (r - of_int \<lfloor>r\<rfloor>)" unfolding fl by simp
  show ?thesis
    unfolding rne_def Let_def d unfolding fl
    by (auto simp: field_simps)
qed


lemma rnd53_minus: "rnd53 (- r) = - rnd53 r"
  by (simp add: rnd53_def Let_def rne_minus)

lemma two_pow_add: "two_pow (a + b) = two_pow a * two_pow b"
  by (simp add: two_pow_powr powr_add)

lemma two_pow_mono: "a \<le> b \<Longrightarrow> two_pow a \<le> two_pow b"
  by (simp add: two_pow_powr)

lemma two_pow_52: "two_pow 52 = of_int (2 ^ 52)" and two_pow_53: "two_pow 53 = of_int (2 ^ 53)"
  by (simp_all add: two_pow_def)

lemma binade:
  assumes "0 < r"
  shows "two_pow \<lfloor>log 2 r\<rfloor> \<le> r \<and> r < two_pow (\<lfloor>log 2 r\<rfloor> + 1)"
proof
  show "two_pow \<lfloor>log 2 r\<rfloor> \<le> r"
    unfolding two_pow_powr using assms by (subst le_log_iff [symmetric]) simp_all
  have "log 2 r < of_int (\<lfloor>log 2 r\<rfloor> + 1)" by linarith
  then show "r < two_pow (\<lfloor>log 2 r\<rfloor> + 1)"
    unfolding two_pow_powr using assms by (subst log_less_iff [symmetric]) simp_all
qed

lemma rnd53_binade:
  assumes "0 < r"
  shows "two_pow \<lfloor>log 2 r\<rfloor> \<le> rnd53 r \<and> rnd53 r \<le> two_pow (\<lfloor>log 2 r\<rfloor> + 1)"
proof -
  let ?e = "\<lfloor>log 2 r\<rfloor>" and ?u = "two_pow (\<lfloor>log 2 r\<rfloor> - 52)"
  have u: "0 < ?u" by (rule two_pow_pos)
  have "?e = (?e - 52) + 52" and "?e + 1 = (?e - 52) + 53" by simp_all
  then have e: "two_pow ?e = ?u * two_pow 52" and e1: "two_pow (?e + 1) = ?u * two_pow 53"
    using two_pow_add [of "?e - 52" 52] two_pow_add [of "?e - 52" 53] by metis+
  have lo: "two_pow 52 \<le> r / ?u" and hi: "r / ?u \<le> two_pow 53"
    using binade [OF assms] u unfolding e e1 by (simp_all add: field_simps)
  have "rne (of_int (2 ^ 52)) \<le> rne (r / ?u)"
    by (rule rne_mono) (use lo in \<open>simp only: two_pow_52\<close>)
  moreover have "rne (r / ?u) \<le> rne (of_int (2 ^ 53))"
    by (rule rne_mono) (use hi in \<open>simp only: two_pow_53\<close>)
  ultimately have "rne (of_int (2 ^ 52)) \<le> rne (r / ?u)" and "rne (r / ?u) \<le> rne (of_int (2 ^ 53))"
    by blast+
  then have "(2 ^ 52 :: int) \<le> rne (r / ?u)" and "rne (r / ?u) \<le> (2 ^ 53 :: int)"
    unfolding rne_of_int by simp_all
  then have "of_int (2 ^ 52) \<le> (of_int (rne (r / ?u)) :: real)"
    and "(of_int (rne (r / ?u)) :: real) \<le> of_int (2 ^ 53)"
    by (simp_all only: of_int_le_iff)
  then have "two_pow 52 * ?u \<le> of_int (rne (r / ?u)) * ?u"
    and "of_int (rne (r / ?u)) * ?u \<le> two_pow 53 * ?u"
    unfolding two_pow_52 two_pow_53 using u by (simp_all only: mult_le_cancel_right_pos)
  moreover have "rnd53 r = of_int (rne (r / ?u)) * ?u"
    using assms by (simp add: rnd53_def Let_def)
  ultimately show ?thesis unfolding e e1 by (simp add: mult.commute)
qed

lemma rnd53_mono_pos:
  assumes "0 < r" and "r \<le> s"
  shows "rnd53 r \<le> rnd53 s"
proof -
  have s: "0 < s" using assms by simp
  let ?e = "\<lfloor>log 2 r\<rfloor>" and ?f = "\<lfloor>log 2 s\<rfloor>"
  have le: "?e \<le> ?f" using assms by (intro floor_mono) simp
  show ?thesis
  proof (cases "?e = ?f")
    case True
    let ?u = "two_pow (?f - 52)"
    have u: "0 < ?u" by (rule two_pow_pos)
    have "r / ?u \<le> s / ?u" using assms u by (simp add: divide_right_mono less_imp_le)
    then have "rne (r / ?u) \<le> rne (s / ?u)" by (rule rne_mono)
    then have "(of_int (rne (r / ?u)) :: real) \<le> of_int (rne (s / ?u))" by simp
    then have "of_int (rne (r / ?u)) * ?u \<le> of_int (rne (s / ?u)) * ?u"
      using u by (simp only: mult_le_cancel_right_pos)
    then show ?thesis using assms s True by (simp add: rnd53_def Let_def)
  next
    case False
    then have "?e + 1 \<le> ?f" using le by simp
    then have "two_pow (?e + 1) \<le> two_pow ?f" by (rule two_pow_mono)
    then show ?thesis using rnd53_binade [OF assms(1)] rnd53_binade [OF s] by linarith
  qed
qed

lemma rnd53_nonneg: "0 \<le> r \<Longrightarrow> 0 \<le> rnd53 r"
  using two_pow_pos by (simp add: rnd53_def Let_def rne_def less_imp_le)

lemma rnd53_mono: "mono rnd53"
proof (rule monoI)
  fix r s :: real
  assume rs: "r \<le> s"
  consider "0 < r" | "r \<le> 0" "0 \<le> s" | "s < 0" using rs by linarith
  then show "rnd53 r \<le> rnd53 s"
  proof cases
    case 1
    then show ?thesis using rs by (rule rnd53_mono_pos)
  next
    case 2
    have "0 \<le> rnd53 (- r)" using 2 by (intro rnd53_nonneg) simp
    then have "rnd53 r \<le> 0" by (simp add: rnd53_minus)
    moreover have "0 \<le> rnd53 s" using 2 by (intro rnd53_nonneg)
    ultimately show ?thesis by linarith
  next
    case 3
    then have "rnd53 (- s) \<le> rnd53 (- r)" using rs by (intro rnd53_mono_pos) simp_all
    then show ?thesis by (simp add: rnd53_minus)
  qed
qed

lemma rnd53_eval:
  assumes "two_pow e \<le> \<bar>r\<bar>" and "\<bar>r\<bar> < two_pow (e + 1)"
  shows "rnd53 r = of_int (rne (r / two_pow (e - 52))) * two_pow (e - 52)"
proof -
  have "0 < two_pow e" by (simp add: two_pow_def)
  then have pos: "0 < \<bar>r\<bar>" using assms(1) by linarith
  then have nz: "r \<noteq> 0" by auto
  have "of_int e \<le> log 2 \<bar>r\<bar>"
    using assms(1) pos by (simp add: two_pow_powr le_log_iff)
  moreover have "log 2 \<bar>r\<bar> < of_int e + 1"
    using assms(2) pos by (simp add: two_pow_powr log_less_iff)
  ultimately have "\<lfloor>log 2 \<bar>r\<bar>\<rfloor> = e" by (rule floor_unique)
  then show ?thesis using nz by (simp add: rnd53_def Let_def)
qed

text \<open>The values of \<open>rnd53\<close>, of the square root and of the line length that are used below.\<close>

lemma rnd53_val_1: "rnd53 (- 2) = - 2"
  by (subst rnd53_eval [where e = "1"]) (simp_all add: two_pow_def rne_def Let_def)

lemma rnd53_val_2: "rnd53 4 = 4"
  by (subst rnd53_eval [where e = "2"]) (simp_all add: two_pow_def rne_def Let_def)

lemma rnd53_val_3: "rnd53 2 = 2"
  by (subst rnd53_eval [where e = "1"]) (simp_all add: two_pow_def rne_def Let_def)

lemma rnd53_val_4: "rnd53 (- 1) = - 1"
  by (subst rnd53_eval [where e = "0"]) (simp_all add: two_pow_def rne_def Let_def)

lemma rnd53_val_5: "rnd53 1 = 1"
  by (subst rnd53_eval [where e = "0"]) (simp_all add: two_pow_def rne_def Let_def)

lemma rnd53_val_6: "rnd53 (1 / 2) = 1 / 2"
  by (subst rnd53_eval [where e = "- 1"]) (simp_all add: two_pow_def rne_def Let_def)

lemma rnd53_val_7: "rnd53 (1 / 3) = 6004799503160661 / 18014398509481984"
  by (subst rnd53_eval [where e = "- 2"]) (simp_all add: two_pow_def rne_def Let_def)

lemma rnd53_val_8: "rnd53 (1 / 6) = 6004799503160661 / 36028797018963968"
  by (subst rnd53_eval [where e = "- 3"]) (simp_all add: two_pow_def rne_def Let_def)

lemma rnd53_val_9: "rnd53 (1 / 4) = 1 / 4"
  by (subst rnd53_eval [where e = "- 2"]) (simp_all add: two_pow_def rne_def Let_def)

lemma rnd53_val_10: "rnd53 (- 3) = - 3"
  by (subst rnd53_eval [where e = "1"]) (simp_all add: two_pow_def rne_def Let_def)

lemma rnd53_val_11: "rnd53 9 = 9"
  by (subst rnd53_eval [where e = "3"]) (simp_all add: two_pow_def rne_def Let_def)

lemma rnd53_val_12: "rnd53 3 = 3"
  by (subst rnd53_eval [where e = "1"]) (simp_all add: two_pow_def rne_def Let_def)

lemma rnd53_val_13: "rnd53 (- 4) = - 4"
  by (subst rnd53_eval [where e = "2"]) (simp_all add: two_pow_def rne_def Let_def)

lemma rnd53_val_14: "rnd53 16 = 16"
  by (subst rnd53_eval [where e = "4"]) (simp_all add: two_pow_def rne_def Let_def)

lemma rnd53_val_15: "rnd53 (2 / 3) = 6004799503160661 / 9007199254740992"
  by (subst rnd53_eval [where e = "- 1"]) (simp_all add: two_pow_def rne_def Let_def)

lemma rnd53_val_16: "rnd53 (1 / 8) = 1 / 8"
  by (subst rnd53_eval [where e = "- 3"]) (simp_all add: two_pow_def rne_def Let_def)

lemma rnd53_val_17: "rnd53 10 = 10"
  by (subst rnd53_eval [where e = "3"]) (simp_all add: two_pow_def rne_def Let_def)

lemma rnd53_val_18: "rnd53 19 = 19"
  by (subst rnd53_eval [where e = "4"]) (simp_all add: two_pow_def rne_def Let_def)

lemma rnd53_val_19: "rnd53 29 = 29"
  by (subst rnd53_eval [where e = "4"]) (simp_all add: two_pow_def rne_def Let_def)

lemma rnd53_val_20: "rnd53 (29 / 7) = 4664442471205157 / 1125899906842624"
  by (subst rnd53_eval [where e = "2"]) (simp_all add: two_pow_def rne_def Let_def)

lemma rnd53_val_21: "rnd53 (- 10) = - 10"
  by (subst rnd53_eval [where e = "3"]) (simp_all add: two_pow_def rne_def Let_def)

lemma rnd53_val_22: "rnd53 100 = 100"
  by (subst rnd53_eval [where e = "6"]) (simp_all add: two_pow_def rne_def Let_def)

lemma rnd53_val_23: "rnd53 (- 29) = - 29"
  by (subst rnd53_eval [where e = "4"]) (simp_all add: two_pow_def rne_def Let_def)

lemma rnd53_val_24: "rnd53 841 = 841"
  by (subst rnd53_eval [where e = "9"]) (simp_all add: two_pow_def rne_def Let_def)

lemma rnd53_val_25: "rnd53 (4664442471205157 / 1125899906842624) = 4664442471205157 /
    1125899906842624"
  by (subst rnd53_eval [where e = "2"]) (simp_all add: two_pow_def rne_def Let_def)

lemma rnd53_val_26: "rnd53 (4664442471205157 / 562949953421312) = 4664442471205157 /
    562949953421312"
  by (subst rnd53_eval [where e = "3"]) (simp_all add: two_pow_def rne_def Let_def)

lemma rnd53_val_27: "rnd53 (13993327413615471 / 1125899906842624) = 874582963350967 /
    70368744177664"
  by (subst rnd53_eval [where e = "3"]) (simp_all add: two_pow_def rne_def Let_def)

lemma rnd53_val_28: "rnd53 (874582963350967 / 70368744177664) = 874582963350967 / 70368744177664"
  by (subst rnd53_eval [where e = "3"]) (simp_all add: two_pow_def rne_def Let_def)

lemma rnd53_val_29: "rnd53 (- 19) = - 19"
  by (subst rnd53_eval [where e = "4"]) (simp_all add: two_pow_def rne_def Let_def)

lemma rnd53_val_30: "rnd53 361 = 361"
  by (subst rnd53_eval [where e = "8"]) (simp_all add: two_pow_def rne_def Let_def)

lemma rnd53_val_31: "rnd53 (4664442471205157 / 281474976710656) = 4664442471205157 /
    281474976710656"
  by (subst rnd53_eval [where e = "4"]) (simp_all add: two_pow_def rne_def Let_def)

lemma rnd53_val_32: "rnd53 (23322212356025785 / 1125899906842624) = 2915276544503223 /
    140737488355328"
  by (subst rnd53_eval [where e = "4"]) (simp_all add: two_pow_def rne_def Let_def)

lemma rnd53_val_33: "rnd53 (2915276544503223 / 140737488355328) = 2915276544503223 /
    140737488355328"
  by (subst rnd53_eval [where e = "4"]) (simp_all add: two_pow_def rne_def Let_def)

lemma rnd53_val_34: "rnd53 (13993327413615471 / 562949953421312) = 874582963350967 /
    35184372088832"
  by (subst rnd53_eval [where e = "4"]) (simp_all add: two_pow_def rne_def Let_def)

lemma rnd53_val_35: "rnd53 (874582963350967 / 35184372088832) = 874582963350967 / 35184372088832"
  by (subst rnd53_eval [where e = "4"]) (simp_all add: two_pow_def rne_def Let_def)

lemma rnd53_val_36: "rnd53 (32651097298436099 / 1125899906842624) = 8162774324609025 /
    281474976710656"
  by (subst rnd53_eval [where e = "4"]) (simp_all add: two_pow_def rne_def Let_def)

lemma rnd53_val_37: "rnd53 (8162774324609025 / 281474976710656) = 8162774324609025 /
    281474976710656"
  by (subst rnd53_eval [where e = "4"]) (simp_all add: two_pow_def rne_def Let_def)

lemma rnd53_val_38: "rnd53 (4 / 3) = 6004799503160661 / 4503599627370496"
  by (subst rnd53_eval [where e = "0"]) (simp_all add: two_pow_def rne_def Let_def)

lemma rnd53_val_39: "rnd53 10000000000000000 = 10000000000000000"
  by (subst rnd53_eval [where e = "53"]) (simp_all add: two_pow_def rne_def Let_def)

lemma rnd53_val_40: "rnd53 (6004799503160661 / 4503599627370496) = 6004799503160661 /
    4503599627370496"
  by (subst rnd53_eval [where e = "0"]) (simp_all add: two_pow_def rne_def Let_def)

lemma rnd53_val_41: "rnd53 (45035996273704966004799503160661 / 4503599627370496) =
    10000000000000002"
  by (subst rnd53_eval [where e = "53"]) (simp_all add: two_pow_def rne_def Let_def)

lemma rnd53_val_42: "rnd53 (6004799503160661 / 2251799813685248) = 6004799503160661 /
    2251799813685248"
  by (subst rnd53_eval [where e = "1"]) (simp_all add: two_pow_def rne_def Let_def)

lemma rnd53_val_43: "rnd53 (22517998136852486004799503160661 / 2251799813685248) =
    10000000000000002"
  by (subst rnd53_eval [where e = "53"]) (simp_all add: two_pow_def rne_def Let_def)

lemma rnd53_val_44: "rnd53 (18014398509481983 / 4503599627370496) = 4"
  by (subst rnd53_eval [where e = "1"]) (simp_all add: two_pow_def rne_def Let_def)

lemma rnd53_val_45: "rnd53 10000000000000004 = 10000000000000004"
  by (subst rnd53_eval [where e = "53"]) (simp_all add: two_pow_def rne_def Let_def)

lemma sqrt_val_1: "sqrt 4 = 2"
  by (rule real_sqrt_unique) simp_all

lemma sqrt_val_2: "sqrt 1 = 1"
  by (rule real_sqrt_unique) simp_all

lemma sqrt_val_3: "sqrt 9 = 3"
  by (rule real_sqrt_unique) simp_all

lemma sqrt_val_4: "sqrt 16 = 4"
  by (rule real_sqrt_unique) simp_all

lemma sqrt_val_5: "sqrt 100 = 10"
  by (rule real_sqrt_unique) simp_all

lemma sqrt_val_6: "sqrt 841 = 29"
  by (rule real_sqrt_unique) simp_all

lemma sqrt_val_7: "sqrt 361 = 19"
  by (rule real_sqrt_unique) simp_all

lemma length_val_1: "qwtLineLength_rnd rnd53 \<lparr>xp = 0, yp = 0\<rparr>
    \<lparr>xp = 2, yp = 0\<rparr> = 2"
  by (simp add: qwtLineLength_rnd_def Let_def rnd53_0 rnd53_val_1 rnd53_val_2 rnd53_val_3
      sqrt_val_1)

lemma length_val_2: "qwtLineLength_rnd rnd53 \<lparr>xp = 1, yp = 0\<rparr>
    \<lparr>xp = 3, yp = 0\<rparr> = 2"
  by (simp add: qwtLineLength_rnd_def Let_def rnd53_0 rnd53_val_1 rnd53_val_2 rnd53_val_3
      sqrt_val_1)

lemma length_val_3: "qwtLineLength_rnd rnd53 \<lparr>xp = 1, yp = 0\<rparr>
    \<lparr>xp = 2, yp = 0\<rparr> = 1"
  by (simp add: qwtLineLength_rnd_def Let_def rnd53_0 rnd53_val_4 rnd53_val_5 sqrt_val_2)

lemma length_val_4: "qwtLineLength_rnd rnd53 \<lparr>xp = 1, yp = 0\<rparr>
    \<lparr>xp = 4, yp = 0\<rparr> = 3"
  by (simp add: qwtLineLength_rnd_def Let_def rnd53_0 rnd53_val_10 rnd53_val_11 rnd53_val_12
      sqrt_val_3)

lemma length_val_5: "qwtLineLength_rnd rnd53 \<lparr>xp = 0, yp = 0\<rparr>
    \<lparr>xp = 1, yp = 0\<rparr> = 1"
  by (simp add: qwtLineLength_rnd_def Let_def rnd53_0 rnd53_val_4 rnd53_val_5 sqrt_val_2)

lemma length_val_6: "qwtLineLength_rnd rnd53 \<lparr>xp = 0, yp = 0\<rparr>
    \<lparr>xp = 4, yp = 0\<rparr> = 4"
  by (simp add: qwtLineLength_rnd_def Let_def rnd53_0 rnd53_val_13 rnd53_val_14 rnd53_val_2
      sqrt_val_4)

lemma length_val_7: "qwtLineLength_rnd rnd53 \<lparr>xp = 0, yp = 0\<rparr>
    \<lparr>xp = 10, yp = 0\<rparr> = 10"
  by (simp add: qwtLineLength_rnd_def Let_def rnd53_0 rnd53_val_17 rnd53_val_21 rnd53_val_22
      sqrt_val_5)

lemma length_val_8: "qwtLineLength_rnd rnd53 \<lparr>xp = 0, yp = 0\<rparr>
    \<lparr>xp = 29, yp = 0\<rparr> = 29"
  by (simp add: qwtLineLength_rnd_def Let_def rnd53_0 rnd53_val_19 rnd53_val_23 rnd53_val_24
      sqrt_val_6)

lemma length_val_9: "qwtLineLength_rnd rnd53 \<lparr>xp = 10, yp = 0\<rparr>
    \<lparr>xp = 29, yp = 0\<rparr> = 19"
  by (simp add: qwtLineLength_rnd_def Let_def rnd53_0 rnd53_val_18 rnd53_val_29 rnd53_val_30
      sqrt_val_7)

lemma length_val_10: "qwtLineLength_rnd rnd53 \<lparr>xp = 10000000000000000, yp = 0\<rparr>
    \<lparr>xp = 10000000000000002, yp = 0\<rparr> = 2"
  by (simp add: qwtLineLength_rnd_def Let_def rnd53_0 rnd53_val_1 rnd53_val_2 rnd53_val_3
      sqrt_val_1)

lemma length_val_11: "qwtLineLength_rnd rnd53 \<lparr>xp = 10000000000000000, yp = 0\<rparr>
    \<lparr>xp = 10000000000000004, yp = 0\<rparr> = 4"
  by (simp add: qwtLineLength_rnd_def Let_def rnd53_0 rnd53_val_13 rnd53_val_14 rnd53_val_2
      sqrt_val_4)

lemma length_val_12: "qwtLineLength_rnd rnd53 \<lparr>xp = 10000000000000002, yp = 0\<rparr>
    \<lparr>xp = 10000000000000004, yp = 0\<rparr> = 2"
  by (simp add: qwtLineLength_rnd_def Let_def rnd53_0 rnd53_val_1 rnd53_val_2 rnd53_val_3
      sqrt_val_1)

lemma qwtLineLength_rnd_nonneg:
  assumes "\<forall>r. 0 \<le> r \<longrightarrow> 0 \<le> rnd r"
  shows "0 \<le> qwtLineLength_rnd rnd a b"
  using assms by (simp add: qwtLineLength_rnd_def Let_def)

lemma qwtBezierScales_rnd_table:
  assumes z: "rnd 0 = 0" and nn: "\<forall>r. 0 \<le> r \<longrightarrow> 0 \<le> rnd r"
  shows "(let d02 = qwtLineLength_rnd rnd p0 p2;
        d13 = qwtLineLength_rnd rnd p1 p3;
        h = rnd (0.5 * qwtLineLength_rnd rnd p1 p2);
        b1 = (rnd (d02 / 6) < h);
        b2 = (rnd (d13 / 6) < h)
    in qwtBezierScales_rnd rnd p0 p1 p2 p3 =
         (if b1 \<and> b2 then
            Inr (if pointNe_rnd rnd p0 p1 then rnd (1 / 6) else rnd (1 / 3),
                 if pointNe_rnd rnd p2 p3 then rnd (1 / 6) else rnd (1 / 3))
          else if b2 then Inr (rnd (h / d02), rnd (h / d02))
          else if b1 then Inr (rnd (h / d13), rnd (h / d13))
          else if d02 = 0 \<or> d13 = 0 then Inl DivByZero
          else Inr (rnd (h / d02), rnd (h / d13))))"
proof -
  let ?d02 = "qwtLineLength_rnd rnd p0 p2" and ?d13 = "qwtLineLength_rnd rnd p1 p3"
  let ?h = "rnd (0.5 * qwtLineLength_rnd rnd p1 p2)"
  have n02: "0 \<le> rnd (?d02 / 6)" and n13: "0 \<le> rnd (?d13 / 6)"
    using nn qwtLineLength_rnd_nonneg [OF nn] by simp_all
  have a: "?d02 \<noteq> 0" if "\<not> rnd (?d02 / 6) < ?h" "rnd (?d13 / 6) < ?h"
  proof
    assume "?d02 = 0"
    then have "rnd (?d02 / 6) = 0" using z by simp
    with that n13 show False by linarith
  qed
  have b: "?d13 \<noteq> 0" if "rnd (?d02 / 6) < ?h" "\<not> rnd (?d13 / 6) < ?h"
  proof
    assume "?d13 = 0"
    then have "rnd (?d13 / 6) = 0" using z by simp
    with that n02 show False by linarith
  qed
  show ?thesis
    using a b by (auto simp: qwtBezierScales_rnd_def Let_def fdiv_rnd_def bindE_def)
qed

text \<open>
  Claim C1, amended. In the rounded arithmetic, for every rounding function that fixes
  zero and keeps the sign (as the rounding of \<^verbatim>\<open>double\<close> does) and for all four points:
  with the computed chords \<open>d02 = d(p0, p2)\<close>, \<open>d13 = d(p1, p3)\<close> and the computed half
  length \<open>h = 0.5 * d(p1, p2)\<close>, the two conditions of the Bezier interval constructor
  test whether the chord estimates \<open>d02 / 6\<close> and \<open>d13 / 6\<close> are strictly below \<open>h\<close> (not
  whether they exceed it). Both true: the scale is \<open>1 / 6\<close>, and \<open>1 / 3\<close> on a side whose
  neighbour coincides with the end point of the segment in the sense of Qt's
  comparison of points (both coordinate differences at most \<open>10\<^sup>-\<^sup>1\<^sup>2\<close> in absolute
  value). Left false and right true: \<open>s1 = s2 = h / d02\<close>. Left true and right false:
  \<open>s1 = s2 = h / d13\<close>. Both false: \<open>s1 = h / d02\<close> and \<open>s2 = h / d13\<close>, which have a value
  when neither computed chord is zero. Only in the last case can a chord that is
  divided by be zero.
\<close>

theorem qwtBezierScales_rnd_cases:
  assumes "rnd 0 = 0" and "\<forall>r. 0 \<le> r \<longrightarrow> 0 \<le> rnd r"
  shows "(let d02 = qwtLineLength_rnd rnd p0 p2;
        d13 = qwtLineLength_rnd rnd p1 p3;
        h = rnd (0.5 * qwtLineLength_rnd rnd p1 p2);
        b1 = (rnd (d02 / 6) < h);
        b2 = (rnd (d13 / 6) < h)
    in qwtBezierScales_rnd rnd p0 p1 p2 p3 =
         (if b1 \<and> b2 then
            Inr (if pointNe_rnd rnd p0 p1 then rnd (1 / 6) else rnd (1 / 3),
                 if pointNe_rnd rnd p2 p3 then rnd (1 / 6) else rnd (1 / 3))
          else if b2 then Inr (rnd (h / d02), rnd (h / d02))
          else if b1 then Inr (rnd (h / d13), rnd (h / d13))
          else if d02 = 0 \<or> d13 = 0 then Inl DivByZero
          else Inr (rnd (h / d02), rnd (h / d13))))"
  by (rule qwtBezierScales_rnd_table [OF assms])

lemma scales_0124: "qwtBezierScales_rnd rnd53 \<lparr>xp = 0, yp = 0\<rparr>
    \<lparr>xp = 1, yp = 0\<rparr> \<lparr>xp = 2, yp = 0\<rparr> \<lparr>xp = 4, yp = 0\<rparr> =
    Inr (6004799503160661 / 36028797018963968, 6004799503160661 / 36028797018963968)"
  by (simp add: qwtBezierScales_rnd_def Let_def fdiv_rnd_def bindE_def pointNe_rnd_def
      qFuzzyIsNull_def
      rnd53_0 length_val_1 length_val_3 length_val_4 rnd53_val_1 rnd53_val_4 rnd53_val_6
          rnd53_val_7 rnd53_val_8)

lemma scales_0123: "qwtBezierScales_rnd rnd53 \<lparr>xp = 0, yp = 0\<rparr>
    \<lparr>xp = 1, yp = 0\<rparr> \<lparr>xp = 2, yp = 0\<rparr> \<lparr>xp = 3, yp = 0\<rparr> =
    Inr (6004799503160661 / 36028797018963968, 6004799503160661 / 36028797018963968)"
  by (simp add: qwtBezierScales_rnd_def Let_def fdiv_rnd_def bindE_def pointNe_rnd_def
      qFuzzyIsNull_def
      rnd53_0 length_val_1 length_val_2 length_val_3 rnd53_val_4 rnd53_val_6 rnd53_val_7
          rnd53_val_8 rnd53_val_9)

theorem qwtBezierScales_rnd_cases_witness:
  "rnd53 0 = 0
   \<and> qwtBezierScales_rnd rnd53 \<lparr>xp = 0, yp = 0\<rparr> \<lparr>xp = 1, yp = 0\<rparr>
       \<lparr>xp = 2, yp = 0\<rparr> \<lparr>xp = 4, yp = 0\<rparr>
       = Inr (6004799503160661 / 36028797018963968, 6004799503160661 / 36028797018963968)"
proof -
  have nn: "\<forall>r. 0 \<le> r \<longrightarrow> 0 \<le> rnd53 r" by (simp add: rnd53_nonneg)
  show ?thesis
    using qwtBezierScales_rnd_cases [OF rnd53_0 nn, of "\<lparr>xp = 0, yp = 0\<rparr>"
        "\<lparr>xp = 2, yp = 0\<rparr>" "\<lparr>xp = 1, yp = 0\<rparr>"
        "\<lparr>xp = 4, yp = 0\<rparr>"]
    by (simp add: Let_def rnd53_0 pointNe_rnd_def qFuzzyIsNull_def length_val_1 length_val_3
        length_val_4 rnd53_val_1 rnd53_val_4 rnd53_val_6 rnd53_val_7 rnd53_val_8)
qed

text \<open>
  The claim as it was stated fails at the points \<open>(0,0)\<close>, \<open>(1,0)\<close>, \<open>(2,0)\<close>, \<open>(3,0)\<close>, in
  exact arithmetic and in the arithmetic of \<^verbatim>\<open>double\<close>: neither chord estimate (\<open>1 / 3\<close>)
  exceeds the half length (\<open>1 / 2\<close>), so the claim gives the scales \<open>h / d02\<close> and
  \<open>h / d13\<close> (both \<open>1 / 4\<close>), and the code selects \<open>1 / 6\<close>.
\<close>

theorem qwtBezierScales_exceeds_counterexample:
  "\<not> (qwtLineLength \<lparr>xp = 0, yp = 0\<rparr> \<lparr>xp = 2, yp = 0\<rparr> / 6 > 0.5 *
      qwtLineLength \<lparr>xp = 1, yp = 0\<rparr> \<lparr>xp = 2, yp = 0\<rparr>)
   \<and> \<not> (qwtLineLength \<lparr>xp = 1, yp = 0\<rparr> \<lparr>xp = 3, yp = 0\<rparr> / 6
       > 0.5 * qwtLineLength \<lparr>xp = 1, yp = 0\<rparr> \<lparr>xp = 2, yp = 0\<rparr>)
   \<and> qwtBezierScales \<lparr>xp = 0, yp = 0\<rparr> \<lparr>xp = 1, yp = 0\<rparr>
       \<lparr>xp = 2, yp = 0\<rparr> \<lparr>xp = 3, yp = 0\<rparr> = Inr (1 / 6, 1 / 6)
   \<and> qwtBezierScales \<lparr>xp = 0, yp = 0\<rparr> \<lparr>xp = 1, yp = 0\<rparr>
       \<lparr>xp = 2, yp = 0\<rparr> \<lparr>xp = 3, yp = 0\<rparr>
       \<noteq> Inr (0.5 * qwtLineLength \<lparr>xp = 1, yp = 0\<rparr>
           \<lparr>xp = 2, yp = 0\<rparr> / qwtLineLength \<lparr>xp = 0, yp = 0\<rparr>
           \<lparr>xp = 2, yp = 0\<rparr>, 0.5 * qwtLineLength \<lparr>xp = 1, yp = 0\<rparr>
           \<lparr>xp = 2, yp = 0\<rparr> / qwtLineLength \<lparr>xp = 1, yp = 0\<rparr>
           \<lparr>xp = 3, yp = 0\<rparr>)
   \<and> \<not> (rnd53 (qwtLineLength_rnd rnd53 \<lparr>xp = 0, yp = 0\<rparr>
       \<lparr>xp = 2, yp = 0\<rparr> / 6) > rnd53 (0.5 * qwtLineLength_rnd rnd53
       \<lparr>xp = 1, yp = 0\<rparr> \<lparr>xp = 2, yp = 0\<rparr>))
   \<and> \<not> (rnd53 (qwtLineLength_rnd rnd53 \<lparr>xp = 1, yp = 0\<rparr>
       \<lparr>xp = 3, yp = 0\<rparr> / 6) > rnd53 (0.5 * qwtLineLength_rnd rnd53
       \<lparr>xp = 1, yp = 0\<rparr> \<lparr>xp = 2, yp = 0\<rparr>))
   \<and> qwtBezierScales_rnd rnd53 \<lparr>xp = 0, yp = 0\<rparr> \<lparr>xp = 1, yp = 0\<rparr>
       \<lparr>xp = 2, yp = 0\<rparr> \<lparr>xp = 3, yp = 0\<rparr>
       = Inr (6004799503160661 / 36028797018963968, 6004799503160661 / 36028797018963968)
   \<and> qwtBezierScales_rnd rnd53 \<lparr>xp = 0, yp = 0\<rparr> \<lparr>xp = 1, yp = 0\<rparr>
       \<lparr>xp = 2, yp = 0\<rparr> \<lparr>xp = 3, yp = 0\<rparr>
       \<noteq> Inr (rnd53 (rnd53 (0.5 * qwtLineLength_rnd rnd53 \<lparr>xp = 1, yp = 0\<rparr>
           \<lparr>xp = 2, yp = 0\<rparr>) / qwtLineLength_rnd rnd53
           \<lparr>xp = 0, yp = 0\<rparr> \<lparr>xp = 2, yp = 0\<rparr>),
               rnd53 (rnd53 (0.5 * qwtLineLength_rnd rnd53 \<lparr>xp = 1, yp = 0\<rparr>
                   \<lparr>xp = 2, yp = 0\<rparr>) / qwtLineLength_rnd rnd53
                   \<lparr>xp = 1, yp = 0\<rparr> \<lparr>xp = 3, yp = 0\<rparr>))"
  by (simp add: qwtBezierScales_def qwtLineLength_horizontal Let_def pointNe_def qFuzzyIsNull_def
      scales_0123 length_val_1 length_val_2 length_val_3 rnd53_val_4 rnd53_val_6 rnd53_val_7
          rnd53_val_8 rnd53_val_9)

lemma pointNe_rnd_same: "rnd 0 = 0 \<Longrightarrow> \<not> pointNe_rnd rnd p p"
  by (simp add: pointNe_rnd_def qFuzzyIsNull_def)

text \<open>
  Claim C9, amended. When the interval of the first segment is built, with the same
  point as \<open>p0\<close> and \<open>p1\<close>, in the rounded arithmetic (for every rounding function that
  fixes zero and keeps the sign): the scale of the left side is \<open>1 / 3\<close> exactly when
  both conditions hold (the right scale is then \<open>1 / 6\<close>, or \<open>1 / 3\<close> when \<open>p3\<close> coincides with
  \<open>p2\<close> in the sense of Qt's comparison); when the left condition holds and the right
  one fails, both scales are the half length divided by the chord \<open>d(p1, p3)\<close>; and
  when the left condition holds, no chord that is divided by is zero. A zero chord is
  divided by only when both conditions fail. In exact arithmetic the left condition
  holds whenever \<open>p1\<close> and \<open>p2\<close> differ.
\<close>

theorem qwtBezierScales_rnd_first_segment:
  assumes z: "rnd 0 = 0" and nn: "\<forall>r. 0 \<le> r \<longrightarrow> 0 \<le> rnd r"
  shows "(let d = qwtLineLength_rnd rnd p1 p2;
        d13 = qwtLineLength_rnd rnd p1 p3;
        h = rnd (0.5 * d);
        b1 = (rnd (d / 6) < h);
        b2 = (rnd (d13 / 6) < h)
    in qwtBezierScales_rnd rnd p1 p1 p2 p3 =
         (if b1 \<and> b2 then
            Inr (rnd (1 / 3), if pointNe_rnd rnd p2 p3 then rnd (1 / 6) else rnd (1 / 3))
          else if b2 then Inr (rnd (h / d), rnd (h / d))
          else if b1 then Inr (rnd (h / d13), rnd (h / d13))
          else if d = 0 \<or> d13 = 0 then Inl DivByZero
          else Inr (rnd (h / d), rnd (h / d13)))
       \<and> (b1 \<longrightarrow> d \<noteq> 0 \<and>
           (\<not> b2 \<longrightarrow> d13 \<noteq> 0)))
     \<and> (p1 \<noteq> p2 \<longrightarrow> qwtLineLength p1 p2 / 6 < 0.5 * qwtLineLength p1 p2)"
proof -
  let ?d = "qwtLineLength_rnd rnd p1 p2" and ?d13 = "qwtLineLength_rnd rnd p1 p3"
  let ?h = "rnd (0.5 * ?d)"
  have n: "0 \<le> rnd (?d / 6)" using nn qwtLineLength_rnd_nonneg [OF nn] by simp
  have a: "?d \<noteq> 0" if "rnd (?d / 6) < ?h"
  proof
    assume "?d = 0"
    then have "rnd (?d / 6) = 0" and "?h = 0" using z by simp_all
    with that show False by simp
  qed
  have b: "?d13 \<noteq> 0" if "rnd (?d / 6) < ?h" "\<not> rnd (?d13 / 6) < ?h"
  proof
    assume "?d13 = 0"
    then have "rnd (?d13 / 6) = 0" using z by simp
    with that n show False by linarith
  qed
  have c: "qwtLineLength p1 p2 / 6 < 0.5 * qwtLineLength p1 p2" if "p1 \<noteq> p2"
    using qwtLineLength_pos [OF that] by simp
  have n13: "0 \<le> rnd (?d13 / 6)" using nn qwtLineLength_rnd_nonneg [OF nn] by simp
  have a2: "?d \<noteq> 0" if "rnd (?d13 / 6) < ?h"
  proof
    assume "?d = 0"
    then have "?h = 0" using z by simp
    with that n13 show False by linarith
  qed
  have same: "\<not> pointNe_rnd rnd p1 p1" using z by (rule pointNe_rnd_same)
  have cases: "qwtBezierScales_rnd rnd p1 p1 p2 p3 =
         (if rnd (?d / 6) < ?h \<and> rnd (?d13 / 6) < ?h then
            Inr (rnd (1 / 3), if pointNe_rnd rnd p2 p3 then rnd (1 / 6) else rnd (1 / 3))
          else if rnd (?d13 / 6) < ?h then Inr (rnd (?h / ?d), rnd (?h / ?d))
          else if rnd (?d / 6) < ?h then Inr (rnd (?h / ?d13), rnd (?h / ?d13))
          else if ?d = 0 \<or> ?d13 = 0 then Inl DivByZero
          else Inr (rnd (?h / ?d), rnd (?h / ?d13)))"
    using a2 b same by (auto simp: qwtBezierScales_rnd_def Let_def fdiv_rnd_def bindE_def)
  show ?thesis
    using cases a b c by (simp add: Let_def)
qed

lemma scales_0012: "qwtBezierScales_rnd rnd53 \<lparr>xp = 0, yp = 0\<rparr>
    \<lparr>xp = 0, yp = 0\<rparr> \<lparr>xp = 1, yp = 0\<rparr> \<lparr>xp = 2, yp = 0\<rparr> =
    Inr (6004799503160661 / 18014398509481984, 6004799503160661 / 36028797018963968)"
  by (simp add: qwtBezierScales_rnd_def Let_def fdiv_rnd_def bindE_def pointNe_rnd_def
      qFuzzyIsNull_def
      rnd53_0 length_val_1 length_val_5 rnd53_val_4 rnd53_val_6 rnd53_val_7 rnd53_val_8)

lemma scales_0014: "qwtBezierScales_rnd rnd53 \<lparr>xp = 0, yp = 0\<rparr>
    \<lparr>xp = 0, yp = 0\<rparr> \<lparr>xp = 1, yp = 0\<rparr> \<lparr>xp = 4, yp = 0\<rparr> =
    Inr (1 / 8, 1 / 8)"
  by (simp add: qwtBezierScales_rnd_def Let_def fdiv_rnd_def bindE_def pointNe_rnd_def
      qFuzzyIsNull_def
      rnd53_0 length_val_5 length_val_6 rnd53_val_10 rnd53_val_15 rnd53_val_16 rnd53_val_6
          rnd53_val_7 rnd53_val_8)

theorem qwtBezierScales_rnd_first_segment_witness:
  "rnd53 0 = 0
   \<and> \<lparr>xp = 0, yp = 0\<rparr> \<noteq> \<lparr>xp = 1, yp = (0::real)\<rparr>
   \<and> rnd53 (qwtLineLength_rnd rnd53 \<lparr>xp = 0, yp = 0\<rparr>
       \<lparr>xp = 1, yp = 0\<rparr> / 6) < rnd53 (0.5 * qwtLineLength_rnd rnd53
       \<lparr>xp = 0, yp = 0\<rparr> \<lparr>xp = 1, yp = 0\<rparr>)
   \<and> qwtBezierScales_rnd rnd53 \<lparr>xp = 0, yp = 0\<rparr> \<lparr>xp = 0, yp = 0\<rparr>
       \<lparr>xp = 1, yp = 0\<rparr> \<lparr>xp = 2, yp = 0\<rparr>
       = Inr (6004799503160661 / 18014398509481984, 6004799503160661 / 36028797018963968)"
proof -
  have nn: "\<forall>r. 0 \<le> r \<longrightarrow> 0 \<le> rnd53 r" by (simp add: rnd53_nonneg)
  show ?thesis
    using qwtBezierScales_rnd_first_segment [OF rnd53_0 nn, of "\<lparr>xp = 0, yp = 0\<rparr>"
        "\<lparr>xp = 1, yp = 0\<rparr>" "\<lparr>xp = 2, yp = 0\<rparr>"]
    by (simp add: Let_def rnd53_0 pointNe_rnd_def qFuzzyIsNull_def length_val_1 length_val_5
        rnd53_val_4 rnd53_val_6 rnd53_val_7 rnd53_val_8)
qed

text \<open>
  The claim as it was stated fails at \<open>p0 = p1 = (0,0)\<close>, \<open>p2 = (1,0)\<close>, \<open>p3 = (4,0)\<close>, in
  exact arithmetic and in the arithmetic of \<^verbatim>\<open>double\<close>: the right chord estimate \<open>4 / 6\<close>
  is not below the half length \<open>1 / 2\<close>, and the scale of the left side is \<open>1 / 8\<close>, not
  \<open>1 / 3\<close>.
\<close>

theorem qwtBezierScales_first_segment_counterexample:
  "\<lparr>xp = 0, yp = 0\<rparr> \<noteq> \<lparr>xp = 1, yp = (0::real)\<rparr>
   \<and> \<lparr>xp = 0, yp = 0\<rparr> \<noteq> \<lparr>xp = 4, yp = (0::real)\<rparr>
   \<and> \<lparr>xp = 1, yp = 0\<rparr> \<noteq> \<lparr>xp = 4, yp = (0::real)\<rparr>
   \<and> qwtBezierScales \<lparr>xp = 0, yp = 0\<rparr> \<lparr>xp = 0, yp = 0\<rparr>
       \<lparr>xp = 1, yp = 0\<rparr> \<lparr>xp = 4, yp = 0\<rparr>
      = Inr (1 / 8, 1 / 8)
   \<and> (1 / 8 :: real) \<noteq> 1 / 3
   \<and> qwtBezierScales_rnd rnd53 \<lparr>xp = 0, yp = 0\<rparr> \<lparr>xp = 0, yp = 0\<rparr>
       \<lparr>xp = 1, yp = 0\<rparr>
        \<lparr>xp = 4, yp = 0\<rparr>
      = Inr (1 / 8, 1 / 8)
   \<and> (1 / 8 :: real) \<noteq> rnd53 (1 / 3)"
  by (simp add: qwtBezierScales_def qwtLineLength_horizontal Let_def fdiv_def bindE_def
      pointNe_def qFuzzyIsNull_def scales_0014 length_val_5 length_val_6 rnd53_val_10 rnd53_val_15
          rnd53_val_16 rnd53_val_6 rnd53_val_7 rnd53_val_8)

subsection \<open>The stateless fit on increasing abscissae\<close>

lemma bindE_Inr: "bindE (Inr v) f = f v"
  by (simp add: bindE_def)


















subsection \<open>The stateless fit in rounded arithmetic\<close>

text \<open>With the identity as rounding, the rounded functions are those of the exact arithmetic.\<close>

lemma qwtLineLength_rnd_exact: "qwtLineLength_rnd (\<lambda>r. r) a b = qwtLineLength a b"
  by (simp add: qwtLineLength_rnd_def qwtLineLength_def Let_def)

lemma qwtBezierScales_rnd_exact:
  "qwtBezierScales_rnd (\<lambda>r. r) p0 p1 p2 p3 = qwtBezierScales p0 p1 p2 p3"
  by (simp add: qwtBezierScales_rnd_def qwtBezierScales_def qwtLineLength_rnd_exact
      pointNe_rnd_def pointNe_def fdiv_rnd_def fdiv_def Let_def)

lemma qwtBezierInterval_rnd_exact:
  "qwtBezierInterval_rnd (\<lambda>r. r) p0 p1 p2 p3 = qwtBezierInterval p0 p1 p2 p3"
  by (simp add: qwtBezierInterval_rnd_def qwtBezierInterval_def qwtBezierScales_rnd_exact)

lemma qwtBezierValue_rnd_exact:
  "qwtBezierValue_rnd (\<lambda>r. r) p1 p2 interval v = qwtBezierValue p1 p2 interval v"
  by (simp add: qwtBezierValue_rnd_def qwtBezierValue_def fdiv_rnd_def fdiv_def)

lemma fitStep_rnd_exact: "fitStep_rnd (\<lambda>r. r) p v j intv = fitStep p v j intv"
  by (simp add: fitStep_rnd_def fitStep_def qwtBezierInterval_rnd_exact qwtBezierValue_rnd_exact
      Let_def cong del: if_weak_cong)

lemma fitLoop_rnd_exact:
  "fitLoop_rnd (\<lambda>r. r) p numPoints x1 delta i j intv acc = fitLoop p numPoints x1 delta i j intv acc"
proof (induction "nat (numPoints - i)" arbitrary: i j intv acc)
  case 0
  then have "\<not> i < numPoints" by simp
  then show ?case by (simp add: fitLoop.simps fitLoop_rnd.simps)
next
  case (Suc n)
  then have lt: "i < numPoints" and n: "n = nat (numPoints - (i + 1))" by simp_all
  show ?case
    by (subst fitLoop.simps, subst fitLoop_rnd.simps)
       (simp add: fitStep_rnd_exact Suc.hyps(1) [OF n] split: sum.splits)
qed

lemma qwtFitBezier_rnd_exact: "qwtFitBezier_rnd (\<lambda>r. r) points m = qwtFitBezier points m"
  by (simp add: qwtFitBezier_rnd_def qwtFitBezier_def fdiv_rnd_def fdiv_def Let_def
      qwtBezierInterval_rnd_exact fitLoop_rnd_exact)

lemma bindE_InrE:
  assumes "bindE m f = Inr r"
  obtains v where "m = Inr v" and "f v = Inr r"
  using assms by (cases m) (simp_all add: bindE_def)

lemma fitStep_rnd_xp:
  assumes "fitStep_rnd rnd p v j intv = Inr (j', intv', pt)"
  shows "xp pt = v"
  apply (insert assms [unfolded fitStep_rnd_def])
  apply (erule bindE_InrE)
  apply (erule bindE_InrE)
  apply (thin_tac "(if _ then _ else _) = _")
  apply (auto elim!: bindE_InrE)
  done

lemma fitLoop_rnd_xs:
  assumes "fitLoop_rnd rnd p numPoints x1 delta i j intv acc = Inr res"
  shows "\<exists>out. res = acc @ out
           \<and> map xp out = map (\<lambda>k. rnd (x1 + rnd (of_int k * delta)))
               [i..numPoints - 1]"
  using assms
proof (induction "nat (numPoints - i)" arbitrary: i j intv acc)
  case 0
  then have "\<not> i < numPoints" by simp
  then have "fitLoop_rnd rnd p numPoints x1 delta i j intv acc = Inr acc"
    and "[i..numPoints - 1] = []"
    by (simp_all add: fitLoop_rnd.simps)
  with "0.prems" show ?case by simp
next
  case (Suc n)
  then have lt: "i < numPoints" by simp
  let ?v = "rnd (x1 + rnd (of_int i * delta))"
  have unf: "fitLoop_rnd rnd p numPoints x1 delta i j intv acc =
      (case fitStep_rnd rnd p ?v j intv of
         Inl e \<Rightarrow> Inl e
       | Inr (j', intv', pt) \<Rightarrow>
           fitLoop_rnd rnd p numPoints x1 delta (i + 1) j' intv' (acc @ [pt]))"
    using lt by (subst fitLoop_rnd.simps) simp
  obtain t where t: "fitStep_rnd rnd p ?v j intv = Inr t"
    using unf Suc.prems by (cases "fitStep_rnd rnd p ?v j intv") simp_all
  obtain j' intv' pt where tt: "t = (j', intv', pt)" by (cases t)
  have st: "fitStep_rnd rnd p ?v j intv = Inr (j', intv', pt)" using t tt by simp
  have rest: "fitLoop_rnd rnd p numPoints x1 delta (i + 1) j' intv' (acc @ [pt]) = Inr res"
    using unf Suc.prems by (simp add: st)
  have n: "n = nat (numPoints - (i + 1))" using Suc.hyps(2) by simp
  obtain out where out: "res = (acc @ [pt]) @ out"
    and xs: "map xp out = map (\<lambda>k. rnd (x1 + rnd (of_int k * delta)))
        [i + 1..numPoints - 1]"
    using Suc.hyps(1) [OF n rest] by blast
  have "[i..numPoints - 1] = i # [i + 1..numPoints - 1]"
    using lt by (simp add: upto_rec1)
  then show ?case
    using out xs fitStep_rnd_xp [OF st] by (intro exI [of _ "pt # out"]) simp
qed

lemma qwtFitBezier_rnd_xs:
  assumes len: "3 \<le> length p" and run: "qwtFitBezier_rnd rnd p m = Inr out"
  shows "map xp out =
           map (\<lambda>k. rnd (xp (p ! 0)
                  + rnd (of_int k * rnd (rnd (xp (last p) - xp (p ! 0)) / of_int (m - 1)))))
               [0..m - 1]"
proof -
  let ?x1 = "xp (p ! 0)" and ?x2 = "xp (last p)"
  let ?delta = "rnd (rnd (?x2 - ?x1) / of_int (m - 1))"
  have ne: "p \<noteq> []" using len by auto
  have e0: "elemAt p 0 = Inr (p ! 0)" and e1: "elemAt p 1 = Inr (p ! 1)"
    and e2: "elemAt p 2 = Inr (p ! 2)"
    using len by (auto simp: elemAt_def)
  have el: "elemAt p (int (length p) - 1) = Inr (last p)"
    using ne by (simp add: elemAt_def last_conv_nth nat_diff_distrib')
  have c: "(int (length p) \<le> 2) = False" using len by simp
  from run have "bindE (fdiv_rnd rnd (rnd (?x2 - ?x1)) (of_int (m - 1))) (\<lambda>delta.
              bindE (qwtBezierInterval_rnd rnd (p ! 0) (p ! 0) (p ! 1) (p ! 2)) (\<lambda>intv.
                fitLoop_rnd rnd p m ?x1 delta 0 0 intv [])) = Inr out"
    by (simp only: qwtFitBezier_rnd_def Let_def c if_False e0 e1 e2 el bindE_Inr)
  then obtain delta where d: "fdiv_rnd rnd (rnd (?x2 - ?x1)) (of_int (m - 1)) = Inr delta"
    and r2: "bindE (qwtBezierInterval_rnd rnd (p ! 0) (p ! 0) (p ! 1) (p ! 2)) (\<lambda>intv.
                fitLoop_rnd rnd p m ?x1 delta 0 0 intv []) = Inr out"
    by (rule bindE_InrE)
  from r2 obtain intv where lp: "fitLoop_rnd rnd p m ?x1 delta 0 0 intv [] = Inr out"
    by (rule bindE_InrE)
  from d have "delta = ?delta" by (simp add: fdiv_rnd_def split: if_splits)
  with fitLoop_rnd_xs [OF lp] show ?thesis by simp
qed

text \<open>
  Claim C2, amended. In the rounded arithmetic, for an input of at least three points
  with strictly increasing abscissae and \<open>m \<ge> 2\<close>: whenever \<open>qwtFitBezier\<close> returns a
  sequence, it has exactly \<open>m\<close> points, and the abscissa of point \<open>i\<close> is the rounded
  \<open>x1 + i * delta\<close>, with \<open>delta\<close> the rounded \<open>(x2 - x1) / (m - 1)\<close>. The first abscissa is
  the abscissa of the first input point (when the rounding fixes zero and that
  abscissa, as the rounding of \<^verbatim>\<open>double\<close> does), and the abscissae do not decrease (when
  the rounding is monotone and fixes zero, as round-to-nearest is). They can repeat,
  and the last one can differ from the abscissa of the last input point by rounding;
  it is that abscissa in exact arithmetic.
\<close>

theorem qwtFitBezier_rnd_abscissae:
  assumes len: "3 \<le> length points" and inc: "sorted_wrt (<) (map xp points)" and m: "2 \<le> m"
    and run: "qwtFitBezier_rnd rnd points m = Inr out"
  shows "int (length out) = m
     \<and> map xp out =
         map (\<lambda>k. rnd (xp (points ! 0)
                + rnd (of_int k * rnd (rnd (xp (last points) - xp (points ! 0)) / of_int (m - 1)))))
             [0..m - 1]
     \<and> (rnd 0 = 0 \<and> rnd (xp (points ! 0)) = xp (points ! 0) \<longrightarrow> xp (out ! 0) = xp (points ! 0))
     \<and> (rnd 0 = 0 \<and> mono rnd \<longrightarrow> sorted (map xp out))
     \<and> ((\<forall>r. rnd r = r) \<longrightarrow> xp (out ! (length out - 1)) = xp (last points))"
proof -
  let ?x1 = "xp (points ! 0)" and ?x2 = "xp (last points)"
  let ?delta = "rnd (rnd (?x2 - ?x1) / of_int (m - 1))"
  let ?f = "\<lambda>k. rnd (?x1 + rnd (of_int k * ?delta))"
  have xs: "map xp out = map ?f [0..m - 1]"
    by (rule qwtFitBezier_rnd_xs [OF len run])
  have "length (map xp out) = nat m" unfolding xs by simp
  then have l: "int (length out) = m" using m by simp
  have first: "xp (out ! 0) = ?x1" if "rnd 0 = 0" "rnd ?x1 = ?x1"
  proof -
    have "map xp out ! 0 = ?f 0"
      unfolding xs using m by (subst nth_map) simp_all
    moreover have "0 < length out" using l m by linarith
    ultimately show ?thesis using that by simp
  qed
  have srt: "sorted (map xp out)" if z: "rnd 0 = 0" and mo: "mono rnd"
  proof -
    have ne: "points \<noteq> []" using len by auto
    have "nat 0 < nat (int (length points) - 1)" "nat (int (length points) - 1) < length (map xp points)"
      using len by simp_all
    from sorted_wrt_nth_less [OF inc this]
    have "?x1 < ?x2" using len ne by (simp add: last_conv_nth nat_diff_distrib')
    then have "rnd 0 \<le> rnd (?x2 - ?x1)" by (intro monoD [OF mo]) simp
    then have "0 \<le> rnd (?x2 - ?x1) / of_int (m - 1)" using z m by simp
    then have "rnd 0 \<le> ?delta" by (rule monoD [OF mo])
    then have d0: "0 \<le> ?delta" using z by simp
    have step: "?f a \<le> ?f b" if "a \<le> b" for a b :: int
    proof -
      have "of_int a * ?delta \<le> of_int b * ?delta"
        using d0 that by (intro mult_right_mono) simp_all
      then have "rnd (of_int a * ?delta) \<le> rnd (of_int b * ?delta)"
        by (rule monoD [OF mo])
      then show ?thesis by (intro monoD [OF mo]) simp
    qed
    have "sorted (map ?f [0..m - 1])"
      by (rule sorted_wrt_map_mono [OF sorted_upto]) (rule step)
    then show ?thesis unfolding xs .
  qed
  have lastx: "xp (out ! (length out - 1)) = ?x2" if ex: "\<forall>r. rnd r = r"
  proof -
    have m1: "0 < (of_int (m - 1) :: real)" using m by simp
    have "map xp out ! (nat m - 1) = ?f ([0..m - 1] ! (nat m - 1))"
      unfolding xs using m by (subst nth_map) simp_all
    also have "[0..m - 1] ! (nat m - 1) = 0 + int (nat m - 1)"
      using m by (intro nth_upto) simp
    also have "\<dots> = m - 1" using m by simp
    also have "?f (m - 1) = ?x2" using m1 ex by simp
    finally have "map xp out ! (nat m - 1) = ?x2" .
    moreover have "length out = nat m" using l by simp
    moreover have "nat m - 1 < nat m" using m by simp
    ultimately show ?thesis by simp
  qed
  show ?thesis
  proof (intro conjI impI)
    show "xp (out ! (length out - 1)) = ?x2" if "\<forall>r. rnd r = r"
      using that by (rule lastx)
    show "int (length out) = m" by (rule l)
    show "map xp out = map ?f [0..m - 1]" by (rule xs)
    show "xp (out ! 0) = ?x1" if "rnd 0 = 0 \<and> rnd ?x1 = ?x1"
      using that first by blast
    show "sorted (map xp out)" if "rnd 0 = 0 \<and> mono rnd"
      using that srt by blast
  qed
qed

lemma qwtBezierScales_rnd_ok:
  assumes "qwtLineLength_rnd rnd p0 p2 \<noteq> 0" and "qwtLineLength_rnd rnd p1 p3 \<noteq> 0"
  shows "\<exists>s1 s2. qwtBezierScales_rnd rnd p0 p1 p2 p3 = Inr (s1, s2)"
  using assms by (simp add: qwtBezierScales_rnd_def Let_def fdiv_rnd_def bindE_def)

lemma qwtBezierInterval_rnd_flat:
  assumes "rnd 0 = 0" and "yp p0 = 0" and "yp p1 = 0" and "yp p2 = 0" and "yp p3 = 0"
    and "qwtLineLength_rnd rnd p0 p2 \<noteq> 0" and "qwtLineLength_rnd rnd p1 p3 \<noteq> 0"
  shows "qwtBezierInterval_rnd rnd p0 p1 p2 p3 = Inr \<lparr>minValue = 0, maxValue = 0\<rparr>"
proof -
  obtain s1 s2 where "qwtBezierScales_rnd rnd p0 p1 p2 p3 = Inr (s1, s2)"
    using qwtBezierScales_rnd_ok [OF assms(6,7)] by blast
  then show ?thesis
    using assms(1-5) by (simp add: qwtBezierInterval_rnd_def bindE_Inr Let_def)
qed

lemma qwtBezierValue_rnd_flat:
  assumes "rnd 0 = 0" and "yp r1 = 0" and "yp r2 = 0" and "rnd (xp r2 - xp r1) \<noteq> 0"
  shows "qwtBezierValue_rnd rnd r1 r2 \<lparr>minValue = 0, maxValue = 0\<rparr> v = Inr 0"
  using assms by (simp add: qwtBezierValue_rnd_def fdiv_rnd_def bindE_Inr Let_def)

lemma fitLoop_rnd_next:
  assumes "i < numPoints"
    and "fitStep_rnd rnd p (rnd (x1 + rnd (of_int i * delta))) j intv = Inr (j', intv', pt)"
  shows "fitLoop_rnd rnd p numPoints x1 delta i j intv acc
           = fitLoop_rnd rnd p numPoints x1 delta (i + 1) j' intv' (acc @ [pt])"
  using assms by (subst fitLoop_rnd.simps) simp

lemma fitLoop_rnd_fail:
  assumes "i < numPoints"
    and "fitStep_rnd rnd p (rnd (x1 + rnd (of_int i * delta))) j intv = Inl e"
  shows "fitLoop_rnd rnd p numPoints x1 delta i j intv acc = Inl e"
  using assms by (subst fitLoop_rnd.simps) simp

lemma fitLoop_rnd_done:
  assumes "\<not> i < numPoints"
  shows "fitLoop_rnd rnd p numPoints x1 delta i j intv acc = Inr acc"
  using assms by (subst fitLoop_rnd.simps) simp

text \<open>
  The run on \<open>(10\<^sup>1\<^sup>6, 0)\<close>, \<open>(10\<^sup>1\<^sup>6 + 2, 0)\<close>, \<open>(10\<^sup>1\<^sup>6 + 4, 0)\<close> with four points asked for, in
  the arithmetic of \<^verbatim>\<open>double\<close>.
\<close>

lemma run1e16_value_0: "qwtBezierValue_rnd rnd53 \<lparr>xp = 10000000000000000, yp = 0\<rparr>
    \<lparr>xp = 10000000000000002, yp = 0\<rparr> \<lparr>minValue = 0, maxValue = 0\<rparr> v =
    Inr 0"
  by (rule qwtBezierValue_rnd_flat) (simp_all add: rnd53_0 rnd53_val_3)

lemma run1e16_value_1: "qwtBezierValue_rnd rnd53 \<lparr>xp = 10000000000000002, yp = 0\<rparr>
    \<lparr>xp = 10000000000000004, yp = 0\<rparr> \<lparr>minValue = 0, maxValue = 0\<rparr> v =
    Inr 0"
  by (rule qwtBezierValue_rnd_flat) (simp_all add: rnd53_0 rnd53_val_3)

lemma run1e16_interval_0012: "qwtBezierInterval_rnd rnd53
    \<lparr>xp = 10000000000000000, yp = 0\<rparr> \<lparr>xp = 10000000000000000, yp = 0\<rparr>
    \<lparr>xp = 10000000000000002, yp = 0\<rparr> \<lparr>xp = 10000000000000004, yp = 0\<rparr>
    = Inr \<lparr>minValue = 0, maxValue = 0\<rparr>"
  by (rule qwtBezierInterval_rnd_flat) (simp_all add: rnd53_0 length_val_10 length_val_11)

lemma run1e16_abscissa_0: "rnd53 (10000000000000000 + rnd53 (of_int 0 * (6004799503160661 /
    4503599627370496))) = 10000000000000000"
proof -
  have e: "real_of_int 0 * (6004799503160661 / 4503599627370496) = 0" by simp
  show ?thesis unfolding e by (simp add: rnd53_0 rnd53_val_39)
qed

lemma run1e16_step_0: "fitStep_rnd rnd53 [\<lparr>xp = 10000000000000000, yp = 0\<rparr>,
    \<lparr>xp = 10000000000000002, yp = 0\<rparr>,
    \<lparr>xp = 10000000000000004, yp = 0\<rparr>] 10000000000000000 0
    \<lparr>minValue = 0, maxValue = 0\<rparr> = Inr (0,
    \<lparr>minValue = 0, maxValue = 0\<rparr>, \<lparr>xp = 10000000000000000, yp = 0\<rparr>)"
  by (simp add: fitStep_rnd_def elemAt_def bindE_def run1e16_value_0)

lemma run1e16_abscissa_1: "rnd53 (10000000000000000 + rnd53 (of_int 1 * (6004799503160661 /
    4503599627370496))) = 10000000000000002"
proof -
  have e: "real_of_int 1 * (6004799503160661 / 4503599627370496) = 6004799503160661 /
      4503599627370496" by simp
  show ?thesis unfolding e by (simp add: rnd53_0 rnd53_val_40 rnd53_val_41)
qed

lemma run1e16_step_1: "fitStep_rnd rnd53 [\<lparr>xp = 10000000000000000, yp = 0\<rparr>,
    \<lparr>xp = 10000000000000002, yp = 0\<rparr>,
    \<lparr>xp = 10000000000000004, yp = 0\<rparr>] 10000000000000002 0
    \<lparr>minValue = 0, maxValue = 0\<rparr> = Inr (0,
    \<lparr>minValue = 0, maxValue = 0\<rparr>, \<lparr>xp = 10000000000000002, yp = 0\<rparr>)"
  by (simp add: fitStep_rnd_def elemAt_def bindE_def run1e16_value_0)

lemma run1e16_abscissa_2: "rnd53 (10000000000000000 + rnd53 (of_int 2 * (6004799503160661 /
    4503599627370496))) = 10000000000000002"
proof -
  have e: "real_of_int 2 * (6004799503160661 / 4503599627370496) = 6004799503160661 /
      2251799813685248" by simp
  show ?thesis unfolding e by (simp add: rnd53_0 rnd53_val_42 rnd53_val_43)
qed

lemma run1e16_step_2: "fitStep_rnd rnd53 [\<lparr>xp = 10000000000000000, yp = 0\<rparr>,
    \<lparr>xp = 10000000000000002, yp = 0\<rparr>,
    \<lparr>xp = 10000000000000004, yp = 0\<rparr>] 10000000000000002 0
    \<lparr>minValue = 0, maxValue = 0\<rparr> = Inr (0,
    \<lparr>minValue = 0, maxValue = 0\<rparr>, \<lparr>xp = 10000000000000002, yp = 0\<rparr>)"
  by (simp add: fitStep_rnd_def elemAt_def bindE_def run1e16_value_0)

lemma run1e16_abscissa_3: "rnd53 (10000000000000000 + rnd53 (of_int 3 * (6004799503160661 /
    4503599627370496))) = 10000000000000004"
proof -
  have e: "real_of_int 3 * (6004799503160661 / 4503599627370496) = 18014398509481983 /
      4503599627370496" by simp
  show ?thesis unfolding e by (simp add: rnd53_0 rnd53_val_44 rnd53_val_45)
qed

lemma run1e16_interval_0122: "qwtBezierInterval_rnd rnd53
    \<lparr>xp = 10000000000000000, yp = 0\<rparr> \<lparr>xp = 10000000000000002, yp = 0\<rparr>
    \<lparr>xp = 10000000000000004, yp = 0\<rparr> \<lparr>xp = 10000000000000004, yp = 0\<rparr>
    = Inr \<lparr>minValue = 0, maxValue = 0\<rparr>"
  by (rule qwtBezierInterval_rnd_flat) (simp_all add: rnd53_0 length_val_11 length_val_12)

lemma run1e16_step_3: "fitStep_rnd rnd53 [\<lparr>xp = 10000000000000000, yp = 0\<rparr>,
    \<lparr>xp = 10000000000000002, yp = 0\<rparr>,
    \<lparr>xp = 10000000000000004, yp = 0\<rparr>] 10000000000000004 0
    \<lparr>minValue = 0, maxValue = 0\<rparr> = Inr (1,
    \<lparr>minValue = 0, maxValue = 0\<rparr>, \<lparr>xp = 10000000000000004, yp = 0\<rparr>)"
  by (simp add: fitStep_rnd_def elemAt_def bindE_def advance.simps qMin_def run1e16_interval_0122
      run1e16_value_1)

lemma run1e16_loop:
  "fitLoop_rnd rnd53 [\<lparr>xp = 10000000000000000, yp = 0\<rparr>,
      \<lparr>xp = 10000000000000002, yp = 0\<rparr>,
      \<lparr>xp = 10000000000000004, yp = 0\<rparr>] 4 10000000000000000 (6004799503160661 /
      4503599627370496) 0 0 \<lparr>minValue = 0, maxValue = 0\<rparr> [] = Inr
      [\<lparr>xp = 10000000000000000, yp = 0\<rparr>,
      \<lparr>xp = 10000000000000002, yp = 0\<rparr>,
      \<lparr>xp = 10000000000000002, yp = 0\<rparr>,
      \<lparr>xp = 10000000000000004, yp = 0\<rparr>]"
proof -
  have "fitLoop_rnd rnd53 [\<lparr>xp = 10000000000000000, yp = 0\<rparr>,
      \<lparr>xp = 10000000000000002, yp = 0\<rparr>,
      \<lparr>xp = 10000000000000004, yp = 0\<rparr>] 4 10000000000000000 (6004799503160661 /
      4503599627370496) 0 0 \<lparr>minValue = 0, maxValue = 0\<rparr> [] = fitLoop_rnd rnd53
      [\<lparr>xp = 10000000000000000, yp = 0\<rparr>,
      \<lparr>xp = 10000000000000002, yp = 0\<rparr>,
      \<lparr>xp = 10000000000000004, yp = 0\<rparr>] 4 10000000000000000 (6004799503160661 /
      4503599627370496) (0 + 1) 0 \<lparr>minValue = 0, maxValue = 0\<rparr> ([] @
      [\<lparr>xp = 10000000000000000, yp = 0\<rparr>])"
    by (rule fitLoop_rnd_next) (simp, simp only: run1e16_abscissa_0 run1e16_step_0)
  also have "\<dots> = fitLoop_rnd rnd53 [\<lparr>xp = 10000000000000000, yp = 0\<rparr>,
      \<lparr>xp = 10000000000000002, yp = 0\<rparr>,
      \<lparr>xp = 10000000000000004, yp = 0\<rparr>] 4 10000000000000000 (6004799503160661 /
      4503599627370496) 1 0 \<lparr>minValue = 0, maxValue = 0\<rparr>
      [\<lparr>xp = 10000000000000000, yp = 0\<rparr>]"
    by simp
  also have "\<dots> = fitLoop_rnd rnd53 [\<lparr>xp = 10000000000000000, yp = 0\<rparr>,
      \<lparr>xp = 10000000000000002, yp = 0\<rparr>,
      \<lparr>xp = 10000000000000004, yp = 0\<rparr>] 4 10000000000000000 (6004799503160661 /
      4503599627370496) (1 + 1) 0 \<lparr>minValue = 0, maxValue = 0\<rparr>
      ([\<lparr>xp = 10000000000000000, yp = 0\<rparr>] @
      [\<lparr>xp = 10000000000000002, yp = 0\<rparr>])"
    by (rule fitLoop_rnd_next) (simp, simp only: run1e16_abscissa_1 run1e16_step_1)
  also have "\<dots> = fitLoop_rnd rnd53 [\<lparr>xp = 10000000000000000, yp = 0\<rparr>,
      \<lparr>xp = 10000000000000002, yp = 0\<rparr>,
      \<lparr>xp = 10000000000000004, yp = 0\<rparr>] 4 10000000000000000 (6004799503160661 /
      4503599627370496) 2 0 \<lparr>minValue = 0, maxValue = 0\<rparr>
      [\<lparr>xp = 10000000000000000, yp = 0\<rparr>,
      \<lparr>xp = 10000000000000002, yp = 0\<rparr>]"
    by simp
  also have "\<dots> = fitLoop_rnd rnd53 [\<lparr>xp = 10000000000000000, yp = 0\<rparr>,
      \<lparr>xp = 10000000000000002, yp = 0\<rparr>,
      \<lparr>xp = 10000000000000004, yp = 0\<rparr>] 4 10000000000000000 (6004799503160661 /
      4503599627370496) (2 + 1) 0 \<lparr>minValue = 0, maxValue = 0\<rparr>
      ([\<lparr>xp = 10000000000000000, yp = 0\<rparr>,
      \<lparr>xp = 10000000000000002, yp = 0\<rparr>] @
      [\<lparr>xp = 10000000000000002, yp = 0\<rparr>])"
    by (rule fitLoop_rnd_next) (simp, simp only: run1e16_abscissa_2 run1e16_step_2)
  also have "\<dots> = fitLoop_rnd rnd53 [\<lparr>xp = 10000000000000000, yp = 0\<rparr>,
      \<lparr>xp = 10000000000000002, yp = 0\<rparr>,
      \<lparr>xp = 10000000000000004, yp = 0\<rparr>] 4 10000000000000000 (6004799503160661 /
      4503599627370496) 3 0 \<lparr>minValue = 0, maxValue = 0\<rparr>
      [\<lparr>xp = 10000000000000000, yp = 0\<rparr>,
      \<lparr>xp = 10000000000000002, yp = 0\<rparr>,
      \<lparr>xp = 10000000000000002, yp = 0\<rparr>]"
    by simp
  also have "\<dots> = fitLoop_rnd rnd53 [\<lparr>xp = 10000000000000000, yp = 0\<rparr>,
      \<lparr>xp = 10000000000000002, yp = 0\<rparr>,
      \<lparr>xp = 10000000000000004, yp = 0\<rparr>] 4 10000000000000000 (6004799503160661 /
      4503599627370496) (3 + 1) 1 \<lparr>minValue = 0, maxValue = 0\<rparr>
      ([\<lparr>xp = 10000000000000000, yp = 0\<rparr>,
      \<lparr>xp = 10000000000000002, yp = 0\<rparr>,
      \<lparr>xp = 10000000000000002, yp = 0\<rparr>] @
      [\<lparr>xp = 10000000000000004, yp = 0\<rparr>])"
    by (rule fitLoop_rnd_next) (simp, simp only: run1e16_abscissa_3 run1e16_step_3)
  also have "\<dots> = fitLoop_rnd rnd53 [\<lparr>xp = 10000000000000000, yp = 0\<rparr>,
      \<lparr>xp = 10000000000000002, yp = 0\<rparr>,
      \<lparr>xp = 10000000000000004, yp = 0\<rparr>] 4 10000000000000000 (6004799503160661 /
      4503599627370496) 4 1 \<lparr>minValue = 0, maxValue = 0\<rparr>
      [\<lparr>xp = 10000000000000000, yp = 0\<rparr>,
      \<lparr>xp = 10000000000000002, yp = 0\<rparr>,
      \<lparr>xp = 10000000000000002, yp = 0\<rparr>,
      \<lparr>xp = 10000000000000004, yp = 0\<rparr>]"
    by simp
  also have "\<dots> = Inr [\<lparr>xp = 10000000000000000, yp = 0\<rparr>,
      \<lparr>xp = 10000000000000002, yp = 0\<rparr>,
      \<lparr>xp = 10000000000000002, yp = 0\<rparr>,
      \<lparr>xp = 10000000000000004, yp = 0\<rparr>]"
    by (rule fitLoop_rnd_done) simp
  finally show ?thesis .
qed

lemma run1e16_result:
  "qwtFitBezier_rnd rnd53 [\<lparr>xp = 10000000000000000, yp = 0\<rparr>,
      \<lparr>xp = 10000000000000002, yp = 0\<rparr>,
      \<lparr>xp = 10000000000000004, yp = 0\<rparr>] 4 = Inr
      [\<lparr>xp = 10000000000000000, yp = 0\<rparr>,
      \<lparr>xp = 10000000000000002, yp = 0\<rparr>,
      \<lparr>xp = 10000000000000002, yp = 0\<rparr>,
      \<lparr>xp = 10000000000000004, yp = 0\<rparr>]"
  by (simp add: qwtFitBezier_rnd_def elemAt_def bindE_def fdiv_rnd_def Let_def rnd53_val_2
      rnd53_val_38 run1e16_interval_0012 run1e16_loop)

theorem qwtFitBezier_rnd_abscissae_witness:
  "3 \<le> length [\<lparr>xp = 10000000000000000, yp = 0\<rparr>,
      \<lparr>xp = 10000000000000002, yp = 0\<rparr>,
      \<lparr>xp = 10000000000000004, yp = 0\<rparr>]
   \<and> sorted_wrt (<) (map xp [\<lparr>xp = 10000000000000000, yp = 0\<rparr>,
       \<lparr>xp = 10000000000000002, yp = 0\<rparr>,
       \<lparr>xp = 10000000000000004, yp = 0\<rparr>])
   \<and> (2::int) \<le> 4
   \<and> qwtFitBezier_rnd rnd53 [\<lparr>xp = 10000000000000000, yp = 0\<rparr>,
       \<lparr>xp = 10000000000000002, yp = 0\<rparr>,
       \<lparr>xp = 10000000000000004, yp = 0\<rparr>] 4
       = Inr [\<lparr>xp = 10000000000000000, yp = 0\<rparr>,
           \<lparr>xp = 10000000000000002, yp = 0\<rparr>,
           \<lparr>xp = 10000000000000002, yp = 0\<rparr>,
           \<lparr>xp = 10000000000000004, yp = 0\<rparr>]
   \<and> int (length [\<lparr>xp = 10000000000000000, yp = 0\<rparr>,
       \<lparr>xp = 10000000000000002, yp = 0\<rparr>,
       \<lparr>xp = 10000000000000002, yp = 0\<rparr>,
       \<lparr>xp = 10000000000000004, yp = 0\<rparr>]) = 4
   \<and> rnd53 0 = 0
   \<and> mono rnd53
   \<and> rnd53 10000000000000000 = 10000000000000000
   \<and> xp ([\<lparr>xp = 10000000000000000, yp = 0\<rparr>,
       \<lparr>xp = 10000000000000002, yp = 0\<rparr>,
       \<lparr>xp = 10000000000000002, yp = 0\<rparr>,
       \<lparr>xp = 10000000000000004, yp = 0\<rparr>] ! 0) = 10000000000000000
   \<and> sorted (map xp [\<lparr>xp = 10000000000000000, yp = 0\<rparr>,
       \<lparr>xp = 10000000000000002, yp = 0\<rparr>,
       \<lparr>xp = 10000000000000002, yp = 0\<rparr>,
       \<lparr>xp = 10000000000000004, yp = 0\<rparr>])"
proof -
  have h1: "3 \<le> length [\<lparr>xp = 10000000000000000, yp = 0\<rparr>,
      \<lparr>xp = 10000000000000002, yp = 0\<rparr>,
      \<lparr>xp = 10000000000000004, yp = (0::real)\<rparr>]"
    by simp
  have h2: "sorted_wrt (<) (map xp [\<lparr>xp = 10000000000000000, yp = 0\<rparr>,
      \<lparr>xp = 10000000000000002, yp = 0\<rparr>,
      \<lparr>xp = 10000000000000004, yp = 0\<rparr>])"
    by simp
  have h3: "(2::int) \<le> 4" by simp
  note h4 = run1e16_result
  note t = qwtFitBezier_rnd_abscissae [OF h1 h2 h3 h4]
  from t rnd53_0 rnd53_mono have s: "sorted (map xp
      [\<lparr>xp = 10000000000000000, yp = 0\<rparr>,
      \<lparr>xp = 10000000000000002, yp = 0\<rparr>,
      \<lparr>xp = 10000000000000002, yp = 0\<rparr>,
      \<lparr>xp = 10000000000000004, yp = 0\<rparr>])"
    by blast
  show ?thesis
    using h1 h2 h3 h4 s by (simp add: rnd53_0 rnd53_mono rnd53_val_39)
qed

text \<open>
  The claim as it was stated fails in the arithmetic of \<^verbatim>\<open>double\<close> at the input
  \<open>(10\<^sup>1\<^sup>6, 0)\<close>, \<open>(10\<^sup>1\<^sup>6 + 2, 0)\<close>, \<open>(10\<^sup>1\<^sup>6 + 4, 0)\<close> with four points asked for: the
  second and the third abscissa of the result are both \<open>10\<^sup>1\<^sup>6 + 2\<close>.
\<close>

theorem qwtFitBezier_rnd_repeated_counterexample:
  "3 \<le> length [\<lparr>xp = 10000000000000000, yp = 0\<rparr>,
      \<lparr>xp = 10000000000000002, yp = 0\<rparr>,
      \<lparr>xp = 10000000000000004, yp = (0::real)\<rparr>]
   \<and> sorted_wrt (<) (map xp [\<lparr>xp = 10000000000000000, yp = 0\<rparr>,
       \<lparr>xp = 10000000000000002, yp = 0\<rparr>,
       \<lparr>xp = 10000000000000004, yp = 0\<rparr>])
   \<and> (2::int) \<le> 4
   \<and> qwtFitBezier_rnd rnd53 [\<lparr>xp = 10000000000000000, yp = 0\<rparr>,
       \<lparr>xp = 10000000000000002, yp = 0\<rparr>,
       \<lparr>xp = 10000000000000004, yp = 0\<rparr>] 4
       = Inr [\<lparr>xp = 10000000000000000, yp = 0\<rparr>,
           \<lparr>xp = 10000000000000002, yp = 0\<rparr>,
           \<lparr>xp = 10000000000000002, yp = 0\<rparr>,
           \<lparr>xp = 10000000000000004, yp = 0\<rparr>]
   \<and> \<not> sorted_wrt (<) (map xp [\<lparr>xp = 10000000000000000, yp = 0\<rparr>,
       \<lparr>xp = 10000000000000002, yp = 0\<rparr>,
       \<lparr>xp = 10000000000000002, yp = 0\<rparr>,
       \<lparr>xp = 10000000000000004, yp = 0\<rparr>])"
  by (simp add: run1e16_result)

text \<open>
  The run on \<open>(0, 0)\<close>, \<open>(10, 0)\<close>, \<open>(29, 0)\<close> with eight points asked for, in the arithmetic
  of \<^verbatim>\<open>double\<close>.
\<close>

lemma run29_value_0: "qwtBezierValue_rnd rnd53 \<lparr>xp = 0, yp = 0\<rparr>
    \<lparr>xp = 10, yp = 0\<rparr> \<lparr>minValue = 0, maxValue = 0\<rparr> v = Inr 0"
  by (rule qwtBezierValue_rnd_flat) (simp_all add: rnd53_0 rnd53_val_17)

lemma run29_value_1: "qwtBezierValue_rnd rnd53 \<lparr>xp = 10, yp = 0\<rparr>
    \<lparr>xp = 29, yp = 0\<rparr> \<lparr>minValue = 0, maxValue = 0\<rparr> v = Inr 0"
  by (rule qwtBezierValue_rnd_flat) (simp_all add: rnd53_0 rnd53_val_18)

lemma run29_interval_0012: "qwtBezierInterval_rnd rnd53 \<lparr>xp = 0, yp = 0\<rparr>
    \<lparr>xp = 0, yp = 0\<rparr> \<lparr>xp = 10, yp = 0\<rparr> \<lparr>xp = 29, yp = 0\<rparr>
    = Inr \<lparr>minValue = 0, maxValue = 0\<rparr>"
  by (rule qwtBezierInterval_rnd_flat) (simp_all add: rnd53_0 length_val_7 length_val_8)

lemma run29_abscissa_0: "rnd53 (0 + rnd53 (of_int 0 * (4664442471205157 / 1125899906842624))) = 0"
proof -
  have e: "real_of_int 0 * (4664442471205157 / 1125899906842624) = 0" by simp
  show ?thesis unfolding e by (simp add: rnd53_0 )
qed

lemma run29_step_0: "fitStep_rnd rnd53 [\<lparr>xp = 0, yp = 0\<rparr>,
    \<lparr>xp = 10, yp = 0\<rparr>, \<lparr>xp = 29, yp = 0\<rparr>] 0 0
    \<lparr>minValue = 0, maxValue = 0\<rparr> = Inr (0,
    \<lparr>minValue = 0, maxValue = 0\<rparr>, \<lparr>xp = 0, yp = 0\<rparr>)"
  by (simp add: fitStep_rnd_def elemAt_def bindE_def run29_value_0)

lemma run29_abscissa_1: "rnd53 (0 + rnd53 (of_int 1 * (4664442471205157 / 1125899906842624))) =
    4664442471205157 / 1125899906842624"
proof -
  have e: "real_of_int 1 * (4664442471205157 / 1125899906842624) = 4664442471205157 /
      1125899906842624" by simp
  show ?thesis unfolding e by (simp add: rnd53_0 rnd53_val_25 rnd53_val_25)
qed

lemma run29_step_1: "fitStep_rnd rnd53 [\<lparr>xp = 0, yp = 0\<rparr>,
    \<lparr>xp = 10, yp = 0\<rparr>, \<lparr>xp = 29, yp = 0\<rparr>] (4664442471205157 /
    1125899906842624) 0 \<lparr>minValue = 0, maxValue = 0\<rparr> = Inr (0,
    \<lparr>minValue = 0, maxValue = 0\<rparr>,
    \<lparr>xp = 4664442471205157 / 1125899906842624, yp = 0\<rparr>)"
  by (simp add: fitStep_rnd_def elemAt_def bindE_def run29_value_0)

lemma run29_abscissa_2: "rnd53 (0 + rnd53 (of_int 2 * (4664442471205157 / 1125899906842624))) =
    4664442471205157 / 562949953421312"
proof -
  have e: "real_of_int 2 * (4664442471205157 / 1125899906842624) = 4664442471205157 /
      562949953421312" by simp
  show ?thesis unfolding e by (simp add: rnd53_0 rnd53_val_26 rnd53_val_26)
qed

lemma run29_step_2: "fitStep_rnd rnd53 [\<lparr>xp = 0, yp = 0\<rparr>,
    \<lparr>xp = 10, yp = 0\<rparr>, \<lparr>xp = 29, yp = 0\<rparr>] (4664442471205157 /
    562949953421312) 0 \<lparr>minValue = 0, maxValue = 0\<rparr> = Inr (0,
    \<lparr>minValue = 0, maxValue = 0\<rparr>,
    \<lparr>xp = 4664442471205157 / 562949953421312, yp = 0\<rparr>)"
  by (simp add: fitStep_rnd_def elemAt_def bindE_def run29_value_0)

lemma run29_abscissa_3: "rnd53 (0 + rnd53 (of_int 3 * (4664442471205157 / 1125899906842624))) =
    874582963350967 / 70368744177664"
proof -
  have e: "real_of_int 3 * (4664442471205157 / 1125899906842624) = 13993327413615471 /
      1125899906842624" by simp
  show ?thesis unfolding e by (simp add: rnd53_0 rnd53_val_27 rnd53_val_28)
qed

lemma run29_interval_0122: "qwtBezierInterval_rnd rnd53 \<lparr>xp = 0, yp = 0\<rparr>
    \<lparr>xp = 10, yp = 0\<rparr> \<lparr>xp = 29, yp = 0\<rparr>
    \<lparr>xp = 29, yp = 0\<rparr> = Inr \<lparr>minValue = 0, maxValue = 0\<rparr>"
  by (rule qwtBezierInterval_rnd_flat) (simp_all add: rnd53_0 length_val_8 length_val_9)

lemma run29_step_3: "fitStep_rnd rnd53 [\<lparr>xp = 0, yp = 0\<rparr>,
    \<lparr>xp = 10, yp = 0\<rparr>, \<lparr>xp = 29, yp = 0\<rparr>] (874582963350967 /
    70368744177664) 0 \<lparr>minValue = 0, maxValue = 0\<rparr> = Inr (1,
    \<lparr>minValue = 0, maxValue = 0\<rparr>,
    \<lparr>xp = 874582963350967 / 70368744177664, yp = 0\<rparr>)"
  by (simp add: fitStep_rnd_def elemAt_def bindE_def advance.simps qMin_def run29_interval_0122
      run29_value_1)

lemma run29_abscissa_4: "rnd53 (0 + rnd53 (of_int 4 * (4664442471205157 / 1125899906842624))) =
    4664442471205157 / 281474976710656"
proof -
  have e: "real_of_int 4 * (4664442471205157 / 1125899906842624) = 4664442471205157 /
      281474976710656" by simp
  show ?thesis unfolding e by (simp add: rnd53_0 rnd53_val_31 rnd53_val_31)
qed

lemma run29_step_4: "fitStep_rnd rnd53 [\<lparr>xp = 0, yp = 0\<rparr>,
    \<lparr>xp = 10, yp = 0\<rparr>, \<lparr>xp = 29, yp = 0\<rparr>] (4664442471205157 /
    281474976710656) 1 \<lparr>minValue = 0, maxValue = 0\<rparr> = Inr (1,
    \<lparr>minValue = 0, maxValue = 0\<rparr>,
    \<lparr>xp = 4664442471205157 / 281474976710656, yp = 0\<rparr>)"
  by (simp add: fitStep_rnd_def elemAt_def bindE_def run29_value_1)

lemma run29_abscissa_5: "rnd53 (0 + rnd53 (of_int 5 * (4664442471205157 / 1125899906842624))) =
    2915276544503223 / 140737488355328"
proof -
  have e: "real_of_int 5 * (4664442471205157 / 1125899906842624) = 23322212356025785 /
      1125899906842624" by simp
  show ?thesis unfolding e by (simp add: rnd53_0 rnd53_val_32 rnd53_val_33)
qed

lemma run29_step_5: "fitStep_rnd rnd53 [\<lparr>xp = 0, yp = 0\<rparr>,
    \<lparr>xp = 10, yp = 0\<rparr>, \<lparr>xp = 29, yp = 0\<rparr>] (2915276544503223 /
    140737488355328) 1 \<lparr>minValue = 0, maxValue = 0\<rparr> = Inr (1,
    \<lparr>minValue = 0, maxValue = 0\<rparr>,
    \<lparr>xp = 2915276544503223 / 140737488355328, yp = 0\<rparr>)"
  by (simp add: fitStep_rnd_def elemAt_def bindE_def run29_value_1)

lemma run29_abscissa_6: "rnd53 (0 + rnd53 (of_int 6 * (4664442471205157 / 1125899906842624))) =
    874582963350967 / 35184372088832"
proof -
  have e: "real_of_int 6 * (4664442471205157 / 1125899906842624) = 13993327413615471 /
      562949953421312" by simp
  show ?thesis unfolding e by (simp add: rnd53_0 rnd53_val_34 rnd53_val_35)
qed

lemma run29_step_6: "fitStep_rnd rnd53 [\<lparr>xp = 0, yp = 0\<rparr>,
    \<lparr>xp = 10, yp = 0\<rparr>, \<lparr>xp = 29, yp = 0\<rparr>] (874582963350967 /
    35184372088832) 1 \<lparr>minValue = 0, maxValue = 0\<rparr> = Inr (1,
    \<lparr>minValue = 0, maxValue = 0\<rparr>,
    \<lparr>xp = 874582963350967 / 35184372088832, yp = 0\<rparr>)"
  by (simp add: fitStep_rnd_def elemAt_def bindE_def run29_value_1)

lemma run29_abscissa_7: "rnd53 (0 + rnd53 (of_int 7 * (4664442471205157 / 1125899906842624))) =
    8162774324609025 / 281474976710656"
proof -
  have e: "real_of_int 7 * (4664442471205157 / 1125899906842624) = 32651097298436099 /
      1125899906842624" by simp
  show ?thesis unfolding e by (simp add: rnd53_0 rnd53_val_36 rnd53_val_37)
qed

lemma run29_step_7: "fitStep_rnd rnd53 [\<lparr>xp = 0, yp = 0\<rparr>,
    \<lparr>xp = 10, yp = 0\<rparr>, \<lparr>xp = 29, yp = 0\<rparr>] (8162774324609025 /
    281474976710656) 1 \<lparr>minValue = 0, maxValue = 0\<rparr> = Inl OutOfBounds"
  by (simp add: fitStep_rnd_def elemAt_def bindE_def advance.simps)

lemma run29_loop:
  "fitLoop_rnd rnd53 [\<lparr>xp = 0, yp = 0\<rparr>, \<lparr>xp = 10, yp = 0\<rparr>,
      \<lparr>xp = 29, yp = 0\<rparr>] 8 0 (4664442471205157 / 1125899906842624) 0 0
      \<lparr>minValue = 0, maxValue = 0\<rparr> [] = Inl OutOfBounds"
proof -
  have "fitLoop_rnd rnd53 [\<lparr>xp = 0, yp = 0\<rparr>, \<lparr>xp = 10, yp = 0\<rparr>,
      \<lparr>xp = 29, yp = 0\<rparr>] 8 0 (4664442471205157 / 1125899906842624) 0 0
      \<lparr>minValue = 0, maxValue = 0\<rparr> [] = fitLoop_rnd rnd53
      [\<lparr>xp = 0, yp = 0\<rparr>, \<lparr>xp = 10, yp = 0\<rparr>,
      \<lparr>xp = 29, yp = 0\<rparr>] 8 0 (4664442471205157 / 1125899906842624) (0 + 1) 0
      \<lparr>minValue = 0, maxValue = 0\<rparr> ([] @ [\<lparr>xp = 0, yp = 0\<rparr>])"
    by (rule fitLoop_rnd_next) (simp, simp only: run29_abscissa_0 run29_step_0)
  also have "\<dots> = fitLoop_rnd rnd53 [\<lparr>xp = 0, yp = 0\<rparr>,
      \<lparr>xp = 10, yp = 0\<rparr>, \<lparr>xp = 29, yp = 0\<rparr>] 8 0 (4664442471205157 /
      1125899906842624) 1 0 \<lparr>minValue = 0, maxValue = 0\<rparr>
      [\<lparr>xp = 0, yp = 0\<rparr>]"
    by simp
  also have "\<dots> = fitLoop_rnd rnd53 [\<lparr>xp = 0, yp = 0\<rparr>,
      \<lparr>xp = 10, yp = 0\<rparr>, \<lparr>xp = 29, yp = 0\<rparr>] 8 0 (4664442471205157 /
      1125899906842624) (1 + 1) 0 \<lparr>minValue = 0, maxValue = 0\<rparr>
      ([\<lparr>xp = 0, yp = 0\<rparr>] @
      [\<lparr>xp = 4664442471205157 / 1125899906842624, yp = 0\<rparr>])"
    by (rule fitLoop_rnd_next) (simp, simp only: run29_abscissa_1 run29_step_1)
  also have "\<dots> = fitLoop_rnd rnd53 [\<lparr>xp = 0, yp = 0\<rparr>,
      \<lparr>xp = 10, yp = 0\<rparr>, \<lparr>xp = 29, yp = 0\<rparr>] 8 0 (4664442471205157 /
      1125899906842624) 2 0 \<lparr>minValue = 0, maxValue = 0\<rparr>
      [\<lparr>xp = 0, yp = 0\<rparr>,
      \<lparr>xp = 4664442471205157 / 1125899906842624, yp = 0\<rparr>]"
    by simp
  also have "\<dots> = fitLoop_rnd rnd53 [\<lparr>xp = 0, yp = 0\<rparr>,
      \<lparr>xp = 10, yp = 0\<rparr>, \<lparr>xp = 29, yp = 0\<rparr>] 8 0 (4664442471205157 /
      1125899906842624) (2 + 1) 0 \<lparr>minValue = 0, maxValue = 0\<rparr>
      ([\<lparr>xp = 0, yp = 0\<rparr>,
      \<lparr>xp = 4664442471205157 / 1125899906842624, yp = 0\<rparr>] @
      [\<lparr>xp = 4664442471205157 / 562949953421312, yp = 0\<rparr>])"
    by (rule fitLoop_rnd_next) (simp, simp only: run29_abscissa_2 run29_step_2)
  also have "\<dots> = fitLoop_rnd rnd53 [\<lparr>xp = 0, yp = 0\<rparr>,
      \<lparr>xp = 10, yp = 0\<rparr>, \<lparr>xp = 29, yp = 0\<rparr>] 8 0 (4664442471205157 /
      1125899906842624) 3 0 \<lparr>minValue = 0, maxValue = 0\<rparr>
      [\<lparr>xp = 0, yp = 0\<rparr>,
      \<lparr>xp = 4664442471205157 / 1125899906842624, yp = 0\<rparr>,
      \<lparr>xp = 4664442471205157 / 562949953421312, yp = 0\<rparr>]"
    by simp
  also have "\<dots> = fitLoop_rnd rnd53 [\<lparr>xp = 0, yp = 0\<rparr>,
      \<lparr>xp = 10, yp = 0\<rparr>, \<lparr>xp = 29, yp = 0\<rparr>] 8 0 (4664442471205157 /
      1125899906842624) (3 + 1) 1 \<lparr>minValue = 0, maxValue = 0\<rparr>
      ([\<lparr>xp = 0, yp = 0\<rparr>,
      \<lparr>xp = 4664442471205157 / 1125899906842624, yp = 0\<rparr>,
      \<lparr>xp = 4664442471205157 / 562949953421312, yp = 0\<rparr>] @
      [\<lparr>xp = 874582963350967 / 70368744177664, yp = 0\<rparr>])"
    by (rule fitLoop_rnd_next) (simp, simp only: run29_abscissa_3 run29_step_3)
  also have "\<dots> = fitLoop_rnd rnd53 [\<lparr>xp = 0, yp = 0\<rparr>,
      \<lparr>xp = 10, yp = 0\<rparr>, \<lparr>xp = 29, yp = 0\<rparr>] 8 0 (4664442471205157 /
      1125899906842624) 4 1 \<lparr>minValue = 0, maxValue = 0\<rparr>
      [\<lparr>xp = 0, yp = 0\<rparr>,
      \<lparr>xp = 4664442471205157 / 1125899906842624, yp = 0\<rparr>,
      \<lparr>xp = 4664442471205157 / 562949953421312, yp = 0\<rparr>,
      \<lparr>xp = 874582963350967 / 70368744177664, yp = 0\<rparr>]"
    by simp
  also have "\<dots> = fitLoop_rnd rnd53 [\<lparr>xp = 0, yp = 0\<rparr>,
      \<lparr>xp = 10, yp = 0\<rparr>, \<lparr>xp = 29, yp = 0\<rparr>] 8 0 (4664442471205157 /
      1125899906842624) (4 + 1) 1 \<lparr>minValue = 0, maxValue = 0\<rparr>
      ([\<lparr>xp = 0, yp = 0\<rparr>,
      \<lparr>xp = 4664442471205157 / 1125899906842624, yp = 0\<rparr>,
      \<lparr>xp = 4664442471205157 / 562949953421312, yp = 0\<rparr>,
      \<lparr>xp = 874582963350967 / 70368744177664, yp = 0\<rparr>] @
      [\<lparr>xp = 4664442471205157 / 281474976710656, yp = 0\<rparr>])"
    by (rule fitLoop_rnd_next) (simp, simp only: run29_abscissa_4 run29_step_4)
  also have "\<dots> = fitLoop_rnd rnd53 [\<lparr>xp = 0, yp = 0\<rparr>,
      \<lparr>xp = 10, yp = 0\<rparr>, \<lparr>xp = 29, yp = 0\<rparr>] 8 0 (4664442471205157 /
      1125899906842624) 5 1 \<lparr>minValue = 0, maxValue = 0\<rparr>
      [\<lparr>xp = 0, yp = 0\<rparr>,
      \<lparr>xp = 4664442471205157 / 1125899906842624, yp = 0\<rparr>,
      \<lparr>xp = 4664442471205157 / 562949953421312, yp = 0\<rparr>,
      \<lparr>xp = 874582963350967 / 70368744177664, yp = 0\<rparr>,
      \<lparr>xp = 4664442471205157 / 281474976710656, yp = 0\<rparr>]"
    by simp
  also have "\<dots> = fitLoop_rnd rnd53 [\<lparr>xp = 0, yp = 0\<rparr>,
      \<lparr>xp = 10, yp = 0\<rparr>, \<lparr>xp = 29, yp = 0\<rparr>] 8 0 (4664442471205157 /
      1125899906842624) (5 + 1) 1 \<lparr>minValue = 0, maxValue = 0\<rparr>
      ([\<lparr>xp = 0, yp = 0\<rparr>,
      \<lparr>xp = 4664442471205157 / 1125899906842624, yp = 0\<rparr>,
      \<lparr>xp = 4664442471205157 / 562949953421312, yp = 0\<rparr>,
      \<lparr>xp = 874582963350967 / 70368744177664, yp = 0\<rparr>,
      \<lparr>xp = 4664442471205157 / 281474976710656, yp = 0\<rparr>] @
      [\<lparr>xp = 2915276544503223 / 140737488355328, yp = 0\<rparr>])"
    by (rule fitLoop_rnd_next) (simp, simp only: run29_abscissa_5 run29_step_5)
  also have "\<dots> = fitLoop_rnd rnd53 [\<lparr>xp = 0, yp = 0\<rparr>,
      \<lparr>xp = 10, yp = 0\<rparr>, \<lparr>xp = 29, yp = 0\<rparr>] 8 0 (4664442471205157 /
      1125899906842624) 6 1 \<lparr>minValue = 0, maxValue = 0\<rparr>
      [\<lparr>xp = 0, yp = 0\<rparr>,
      \<lparr>xp = 4664442471205157 / 1125899906842624, yp = 0\<rparr>,
      \<lparr>xp = 4664442471205157 / 562949953421312, yp = 0\<rparr>,
      \<lparr>xp = 874582963350967 / 70368744177664, yp = 0\<rparr>,
      \<lparr>xp = 4664442471205157 / 281474976710656, yp = 0\<rparr>,
      \<lparr>xp = 2915276544503223 / 140737488355328, yp = 0\<rparr>]"
    by simp
  also have "\<dots> = fitLoop_rnd rnd53 [\<lparr>xp = 0, yp = 0\<rparr>,
      \<lparr>xp = 10, yp = 0\<rparr>, \<lparr>xp = 29, yp = 0\<rparr>] 8 0 (4664442471205157 /
      1125899906842624) (6 + 1) 1 \<lparr>minValue = 0, maxValue = 0\<rparr>
      ([\<lparr>xp = 0, yp = 0\<rparr>,
      \<lparr>xp = 4664442471205157 / 1125899906842624, yp = 0\<rparr>,
      \<lparr>xp = 4664442471205157 / 562949953421312, yp = 0\<rparr>,
      \<lparr>xp = 874582963350967 / 70368744177664, yp = 0\<rparr>,
      \<lparr>xp = 4664442471205157 / 281474976710656, yp = 0\<rparr>,
      \<lparr>xp = 2915276544503223 / 140737488355328, yp = 0\<rparr>] @
      [\<lparr>xp = 874582963350967 / 35184372088832, yp = 0\<rparr>])"
    by (rule fitLoop_rnd_next) (simp, simp only: run29_abscissa_6 run29_step_6)
  also have "\<dots> = fitLoop_rnd rnd53 [\<lparr>xp = 0, yp = 0\<rparr>,
      \<lparr>xp = 10, yp = 0\<rparr>, \<lparr>xp = 29, yp = 0\<rparr>] 8 0 (4664442471205157 /
      1125899906842624) 7 1 \<lparr>minValue = 0, maxValue = 0\<rparr>
      [\<lparr>xp = 0, yp = 0\<rparr>,
      \<lparr>xp = 4664442471205157 / 1125899906842624, yp = 0\<rparr>,
      \<lparr>xp = 4664442471205157 / 562949953421312, yp = 0\<rparr>,
      \<lparr>xp = 874582963350967 / 70368744177664, yp = 0\<rparr>,
      \<lparr>xp = 4664442471205157 / 281474976710656, yp = 0\<rparr>,
      \<lparr>xp = 2915276544503223 / 140737488355328, yp = 0\<rparr>,
      \<lparr>xp = 874582963350967 / 35184372088832, yp = 0\<rparr>]"
    by simp
  also have "\<dots> = Inl OutOfBounds"
    by (rule fitLoop_rnd_fail) (simp, simp only: run29_abscissa_7 run29_step_7)
  finally show ?thesis .
qed

text \<open>
  Claim C10 says that no array access of \<open>qwtFitBezier\<close> is out of bounds on an input of
  at least three points with strictly increasing abscissae and \<open>m \<ge> 2\<close>. In the arithmetic
  of \<^verbatim>\<open>double\<close>, on \<open>(0, 0)\<close>, \<open>(10, 0)\<close>, \<open>(29, 0)\<close> with eight points asked for, \<open>delta\<close> is
  the rounded \<open>29 / 7\<close> and the last abscissa, the rounded \<open>7 * delta\<close>, is \<open>29 + 2^-48\<close>,
  above the abscissa of the last point: the inner loop, which has no test of the
  index, passes the last segment and reads \<open>p[3]\<close>.
\<close>

theorem qwtFitBezier_rnd_out_of_bounds:
  "qwtFitBezier_rnd rnd53 [\<lparr>xp = 0, yp = 0\<rparr>, \<lparr>xp = 10, yp = 0\<rparr>,
      \<lparr>xp = 29, yp = 0\<rparr>] 8 = Inl OutOfBounds"
  by (simp add: qwtFitBezier_rnd_def elemAt_def bindE_def fdiv_rnd_def Let_def rnd53_val_19
      rnd53_val_20 run29_interval_0012 run29_loop)

subsection \<open>The cached interval against the interval computed afresh\<close>










subsection \<open>Three points on a line\<close>

lemma sqrt_8: "sqrt 8 = 2 * sqrt 2"
proof -
  have "sqrt 8 = sqrt (4 * 2)" by simp
  also have "\<dots> = sqrt 4 * sqrt 2" by (rule real_sqrt_mult)
  finally show ?thesis by simp
qed

lemma line_interval_first:
  "qwtBezierInterval \<lparr>xp = 0, yp = 0\<rparr> \<lparr>xp = 0, yp = 0\<rparr> \<lparr>xp = 1, yp = 1\<rparr> \<lparr>xp = 2, yp = 2\<rparr>
     = Inr \<lparr>minValue = 1, maxValue = 2\<rparr>"
  by (simp add: qwtBezierInterval_def qwtBezierScales_def qwtLineLength_def Let_def bindE_def
      sqrt_8 pointNe_def qFuzzyIsNull_def)

lemma line_interval_second:
  "qwtBezierInterval \<lparr>xp = 0, yp = 0\<rparr> \<lparr>xp = 1, yp = 1\<rparr> \<lparr>xp = 2, yp = 2\<rparr> \<lparr>xp = 2, yp = 2\<rparr>
     = Inr \<lparr>minValue = 4, maxValue = 5\<rparr>"
  by (simp add: qwtBezierInterval_def qwtBezierScales_def qwtLineLength_def Let_def bindE_def
      sqrt_8 pointNe_def qFuzzyIsNull_def)

lemma line_step_0:
  "fitStep [\<lparr>xp = 0, yp = 0\<rparr>, \<lparr>xp = 1, yp = 1\<rparr>, \<lparr>xp = 2, yp = 2\<rparr>] 0 0
     \<lparr>minValue = 1, maxValue = 2\<rparr> = Inr (0, \<lparr>minValue = 1, maxValue = 2\<rparr>, \<lparr>xp = 0, yp = 0\<rparr>)"
  by (simp add: fitStep_def elemAt_def bindE_def qwtBezierValue_def fdiv_def Let_def)

lemma line_step_1:
  "fitStep [\<lparr>xp = 0, yp = 0\<rparr>, \<lparr>xp = 1, yp = 1\<rparr>, \<lparr>xp = 2, yp = 2\<rparr>] (1 / 2) 0
     \<lparr>minValue = 1, maxValue = 2\<rparr>
     = Inr (0, \<lparr>minValue = 1, maxValue = 2\<rparr>, \<lparr>xp = 1 / 2, yp = 1 / 2\<rparr>)"
  by (simp add: fitStep_def elemAt_def bindE_def qwtBezierValue_def fdiv_def Let_def)

lemma line_step_2:
  "fitStep [\<lparr>xp = 0, yp = 0\<rparr>, \<lparr>xp = 1, yp = 1\<rparr>, \<lparr>xp = 2, yp = 2\<rparr>] 1 0
     \<lparr>minValue = 1, maxValue = 2\<rparr> = Inr (0, \<lparr>minValue = 1, maxValue = 2\<rparr>, \<lparr>xp = 1, yp = 1\<rparr>)"
  by (simp add: fitStep_def elemAt_def bindE_def qwtBezierValue_def fdiv_def Let_def)

lemma line_advance:
  "advance [\<lparr>xp = 0, yp = 0\<rparr>, \<lparr>xp = 1, yp = 1\<rparr>, \<lparr>xp = 2, yp = 2\<rparr>] (3 / 2) 0 = Inr 1"
  by (simp add: advance.simps elemAt_def)

lemma line_step_3:
  "fitStep [\<lparr>xp = 0, yp = 0\<rparr>, \<lparr>xp = 1, yp = 1\<rparr>, \<lparr>xp = 2, yp = 2\<rparr>] (3 / 2) 0
     \<lparr>minValue = 1, maxValue = 2\<rparr>
     = Inr (1, \<lparr>minValue = 4, maxValue = 5\<rparr>, \<lparr>xp = 3 / 2, yp = 3 / 2\<rparr>)"
proof -
  have e: "elemAt [\<lparr>xp = 0, yp = 0\<rparr>, \<lparr>xp = 1, yp = 1\<rparr>, \<lparr>xp = 2, yp = (2::real)\<rparr>] 0 = Inr \<lparr>xp = 0, yp = 0\<rparr>"
    "elemAt [\<lparr>xp = 0, yp = 0\<rparr>, \<lparr>xp = 1, yp = 1\<rparr>, \<lparr>xp = 2, yp = (2::real)\<rparr>] 1 = Inr \<lparr>xp = 1, yp = 1\<rparr>"
    "elemAt [\<lparr>xp = 0, yp = 0\<rparr>, \<lparr>xp = 1, yp = 1\<rparr>, \<lparr>xp = 2, yp = (2::real)\<rparr>] 2 = Inr \<lparr>xp = 2, yp = 2\<rparr>"
    by (simp_all add: elemAt_def)
  show ?thesis
    by (simp add: fitStep_def line_advance e qMin_def bindE_Inr line_interval_second
        qwtBezierValue_def fdiv_def Let_def)
qed

lemma line_step_4:
  "fitStep [\<lparr>xp = 0, yp = 0\<rparr>, \<lparr>xp = 1, yp = 1\<rparr>, \<lparr>xp = 2, yp = 2\<rparr>] 2 1
     \<lparr>minValue = 4, maxValue = 5\<rparr> = Inr (1, \<lparr>minValue = 4, maxValue = 5\<rparr>, \<lparr>xp = 2, yp = 2\<rparr>)"
  by (simp add: fitStep_def elemAt_def bindE_def qwtBezierValue_def fdiv_def Let_def)

lemma line_loop:
  "fitLoop [\<lparr>xp = 0, yp = 0\<rparr>, \<lparr>xp = 1, yp = 1\<rparr>, \<lparr>xp = 2, yp = 2\<rparr>] 5 0 (1 / 2) 0 0
     \<lparr>minValue = 1, maxValue = 2\<rparr> []
   = Inr [\<lparr>xp = 0, yp = 0\<rparr>, \<lparr>xp = 1 / 2, yp = 1 / 2\<rparr>, \<lparr>xp = 1, yp = 1\<rparr>,
          \<lparr>xp = 3 / 2, yp = 3 / 2\<rparr>, \<lparr>xp = 2, yp = 2\<rparr>]"
  by (simp add: fitLoop.simps line_step_0 line_step_1 line_step_2 line_step_3 line_step_4)

text \<open>
  Claim C5. For the input \<open>(0,0)\<close>, \<open>(1,1)\<close>, \<open>(2,2)\<close> and five points asked for,
  \<open>qwtFitBezier\<close> returns the five points at the abscissae \<open>0\<close>, \<open>1/2\<close>, \<open>1\<close>, \<open>3/2\<close>,
  \<open>2\<close>, each with its ordinate equal to its abscissa.
\<close>

theorem qwtFitBezier_line:
  "qwtFitBezier [\<lparr>xp = 0, yp = 0\<rparr>, \<lparr>xp = 1, yp = 1\<rparr>, \<lparr>xp = 2, yp = 2\<rparr>] 5
   = Inr [\<lparr>xp = 0, yp = 0\<rparr>, \<lparr>xp = 1 / 2, yp = 1 / 2\<rparr>, \<lparr>xp = 1, yp = 1\<rparr>,
          \<lparr>xp = 3 / 2, yp = 3 / 2\<rparr>, \<lparr>xp = 2, yp = 2\<rparr>]"
  by (simp add: qwtFitBezier_def elemAt_def bindE_Inr fdiv_def Let_def line_interval_first
      line_loop)

end
